theory Spec2Isabelle
  imports Complex_Main "HOL-Library.Sublist" "HOL-Library.AList"
begin

section \<open>Text primitives of the response parser\<close>

text \<open>
  Python text is modelled by \<open>string\<close>, that is, by lists of 8-bit characters: the
  development covers responses and file names whose code points lie below 256.

  \<open>is_space\<close> is the whitespace class used both by \<open>str.strip()\<close> and by the regular
  expression class \<open>\s\<close> on text patterns, restricted to that range: tab, line feed,
  vertical tab, form feed, carriage return, the four separators 28 to 31, space,
  next-line (133) and no-break space (160).
\<close>

definition is_space :: "char \<Rightarrow> bool" where
  "is_space c = (of_char c \<in> {9::nat, 10, 11, 12, 13, 28, 29, 30, 31, 32, 133, 160})"

definition lstrip :: "string \<Rightarrow> string" where
  "lstrip s = dropWhile is_space s"

definition rstrip :: "string \<Rightarrow> string" where
  "rstrip s = rev (dropWhile is_space (rev s))"

text \<open>\<open>s.strip()\<close>\<close>

definition strip :: "string \<Rightarrow> string" where
  "strip s = rstrip (lstrip s)"

text \<open>The two fence tokens of the cleanup step.\<close>

definition fence :: string where
  "fence = [CHR 0x60, CHR 0x60, CHR 0x60]"

definition json_fence :: string where
  "json_fence = fence @ ''json''"

text \<open>
  \<open>re.sub(r'```json\s*', '', s)\<close>: scanning from the left, every occurrence of the
  token \<open>```json\<close> is deleted together with the longest run of whitespace after it, and
  scanning resumes behind the deleted text.
\<close>

function sub_json_fence :: "string \<Rightarrow> string" where
  "sub_json_fence [] = []"
| "sub_json_fence (c # cs) =
     (if prefix json_fence (c # cs)
      then sub_json_fence (dropWhile is_space (drop (length json_fence) (c # cs)))
      else c # sub_json_fence cs)"
  by pat_completeness auto
termination
proof (relation "measure length")
  fix c cs
  assume "prefix json_fence (c # cs)"
  have "length (dropWhile is_space (drop (length json_fence) (c # cs)))
          \<le> length (drop (length json_fence) (c # cs))"
    by (rule length_dropWhile_le)
  also have "\<dots> < length (c # cs)"
    by (simp add: json_fence_def fence_def)
  finally show "(dropWhile is_space (drop (length json_fence) (c # cs)), c # cs) \<in> measure length"
    by simp
qed simp_all

text \<open>
  \<open>re.sub(r'\s*```', '', s)\<close>: at each position the longest run of whitespace is
  skipped; when the token \<open>```\<close> follows, run and token are deleted and scanning resumes
  behind them, otherwise the character at the position is kept. (A shorter run cannot
  match either: it would be followed by whitespace, not by a backtick.)
\<close>

function sub_fence :: "string \<Rightarrow> string" where
  "sub_fence [] = []"
| "sub_fence (c # cs) =
     (if prefix fence (dropWhile is_space (c # cs))
      then sub_fence (drop (length fence) (dropWhile is_space (c # cs)))
      else c # sub_fence cs)"
  by pat_completeness auto
termination
proof (relation "measure length")
  fix c cs
  assume p: "prefix fence (dropWhile is_space (c # cs))"
  have "dropWhile is_space (c # cs) \<noteq> []"
  proof
    assume "dropWhile is_space (c # cs) = []"
    with p have "prefix fence []" by simp
    then show False by (simp add: fence_def)
  qed
  then have "length (drop (length fence) (dropWhile is_space (c # cs)))
          < length (dropWhile is_space (c # cs))"
    by (simp add: fence_def)
  also have "\<dots> \<le> length (c # cs)"
    by (rule length_dropWhile_le)
  finally show "(drop (length fence) (dropWhile is_space (c # cs)), c # cs) \<in> measure length"
    by simp
qed simp_all

text \<open>Step 4 of the local variant: both substitutions in sequence.\<close>

definition clean_fences :: "string \<Rightarrow> string" where
  "clean_fences s = sub_fence (sub_json_fence s)"

text \<open>
  \<open>re.search(r'\{.*\}', s, re.DOTALL)\<close>, returning \<open>match.group(0)\<close>: the text from the
  first opening brace through the last closing brace behind it, if there is one.
\<close>

definition search_braces :: "string \<Rightarrow> string option" where
  "search_braces s =
     (case dropWhile (\<lambda>c. c \<noteq> CHR ''{'') s of
        [] \<Rightarrow> None
      | b # r \<Rightarrow>
          (case rev (dropWhile (\<lambda>c. c \<noteq> CHR ''}'') (rev r)) of
             [] \<Rightarrow> None
           | body \<Rightarrow> Some (b # body)))"

section \<open>Exceptions and JSON values\<close>

text \<open>
  The exceptions that occur in the three scripts. \<open>RetryError\<close> is what the retry
  decorator raises when it gives up; it wraps the exception of the last attempt.
  \<open>OtherError\<close> stands for any further exception of a collaborator (document loader,
  network client, file system), tagged by its message. \<open>Unmodelled\<close> marks a JSON text
  whose value leaves the 8-bit alphabet of \<open>string\<close>.
\<close>

datatype exn =
    ValueError
  | AuthenticationError
  | JSONDecodeError
  | AttributeError
  | KeyError
  | FileNotFoundError
  | RecursionError
  | RetryError exn
  | OtherError string
  | Unmodelled

text \<open>
  The values \<open>json.loads\<close> returns: \<open>None\<close>, booleans, integers, floats, strings, lists
  and dictionaries. A dictionary is an association list with distinct keys in insertion
  order. A float is represented by the exact decimal value of its literal (the float
  itself is that value rounded to binary64); \<open>NaN\<close> and the two infinities, which
  \<open>json.loads\<close> accepts, have constructors of their own.
\<close>

datatype json =
    JNull
  | JBool bool
  | JInt int
  | JFloat rat
  | JNaN
  | JInfinity bool
  | JString string
  | JArray "json list"
  | JObject "(string \<times> json) list"

text \<open>
  Python truthiness, as tested by \<open>if not metadata\<close>. A float is false when it is
  zero, that is, when the decimal value rounds to zero: its magnitude is at most half
  the smallest positive binary64 number, \<open>2 ^ -1074\<close>.
\<close>

fun truthy :: "json \<Rightarrow> bool" where
  "truthy JNull = False"
| "truthy (JBool b) = b"
| "truthy (JInt i) = (i \<noteq> 0)"
| "truthy (JFloat r) = (1 / 2 ^ 1075 < \<bar>r\<bar>)"
| "truthy JNaN = True"
| "truthy (JInfinity neg) = True"
| "truthy (JString t) = (t \<noteq> [])"
| "truthy (JArray vs) = (vs \<noteq> [])"
| "truthy (JObject kvs) = (kvs \<noteq> [])"


section \<open>A model of \<open>json.loads\<close>\<close>

text \<open>
  \<open>json.loads\<close> belongs to the Python standard library, not to the repository. The
  scripts are therefore modelled over an arbitrary parser (the field \<open>loads\<close> of the
  environment below), and the statements about all responses hold for every parser.
  The following decoder follows the library's scanner and is used to evaluate the
  scripts on concrete responses.
\<close>

definition is_json_ws :: "char \<Rightarrow> bool" where
  "is_json_ws c = (of_char c \<in> {32::nat, 9, 10, 13})"

definition skip_ws :: "string \<Rightarrow> string" where
  "skip_ws s = dropWhile is_json_ws s"

definition is_digit :: "char \<Rightarrow> bool" where
  "is_digit c = (48 \<le> (of_char c :: nat) \<and> (of_char c :: nat) \<le> 57)"

definition digits_val :: "string \<Rightarrow> nat" where
  "digits_val ds = foldl (\<lambda>n c. 10 * n + (of_char c - 48)) 0 ds"

definition hex_val :: "char \<Rightarrow> nat option" where
  "hex_val c =
     (let k = (of_char c :: nat) in
      if 48 \<le> k \<and> k \<le> 57 then Some (k - 48)
      else if 65 \<le> k \<and> k \<le> 70 then Some (k - 55)
      else if 97 \<le> k \<and> k \<le> 102 then Some (k - 87)
      else None)"

text \<open>The four hexadecimal digits of a \<open>\uXXXX\<close> escape.\<close>

fun hex4 :: "string \<Rightarrow> nat option" where
  "hex4 [a, b, c, d] =
     (case (hex_val a, hex_val b, hex_val c, hex_val d) of
        (Some x, Some y, Some z, Some w) \<Rightarrow> Some (((x * 16 + y) * 16 + z) * 16 + w)
      | _ \<Rightarrow> None)"
| "hex4 ds = None"

definition unescape :: "char \<Rightarrow> char option" where
  "unescape e =
     (if e = CHR 0x22 then Some (CHR 0x22)
      else if e = CHR 0x5C then Some (CHR 0x5C)
      else if e = CHR ''/'' then Some (CHR ''/'')
      else if e = CHR ''b'' then Some (CHR 0x08)
      else if e = CHR ''f'' then Some (CHR 0x0C)
      else if e = CHR ''n'' then Some (CHR 0x0A)
      else if e = CHR ''r'' then Some (CHR 0x0D)
      else if e = CHR ''t'' then Some (CHR 0x09)
      else None)"

text \<open>
  The body of a string literal, behind the opening quote, in strict mode: a control
  character, an unknown escape and a missing closing quote are errors.
\<close>

function scanstring :: "string \<Rightarrow> string \<Rightarrow> exn + (string \<times> string)" where
  "scanstring acc [] = Inl JSONDecodeError"
| "scanstring acc (c # cs) =
     (if c = CHR 0x22 then Inr (rev acc, cs)
      else if c = CHR 0x5C then
        (case cs of
           [] \<Rightarrow> Inl JSONDecodeError
         | e # es \<Rightarrow>
             if e = CHR ''u'' then
               (case hex4 (take 4 es) of
                  None \<Rightarrow> Inl JSONDecodeError
                | Some n \<Rightarrow>
                    if n < 256 then scanstring (char_of n # acc) (drop 4 es)
                    else Inl Unmodelled)
             else
               (case unescape e of
                  None \<Rightarrow> Inl JSONDecodeError
                | Some ch \<Rightarrow> scanstring (ch # acc) es))
      else if (of_char c :: nat) < 32 then Inl JSONDecodeError
      else scanstring (c # acc) cs)"
  by pat_completeness auto
termination
  by (relation "measure (\<lambda>(acc, s). length s)") auto

text \<open>
  A number literal, \<open>-?(0|[1-9]\d*)(\.\d+)?([eE][-+]?\d+)?\<close>, matched greedily at the
  start of the text: an integer when it has neither fraction nor exponent, a float
  otherwise.
\<close>

definition scan_exponent :: "string \<Rightarrow> (int \<times> string) option" where
  "scan_exponent s =
     (case s of
        [] \<Rightarrow> None
      | e # r \<Rightarrow>
          if e = CHR ''e'' \<or> e = CHR ''E'' then
            (let (neg, r1) =
               (case r of
                  [] \<Rightarrow> (False, r)
                | g # r' \<Rightarrow>
                    if g = CHR ''-'' then (True, r')
                    else if g = CHR ''+'' then (False, r')
                    else (False, r));
                 ds = takeWhile is_digit r1
             in if ds = [] then None
                else Some ((if neg then - int (digits_val ds) else int (digits_val ds)),
                           drop (length ds) r1))
          else None)"

definition scan_number :: "string \<Rightarrow> (json \<times> string) option" where
  "scan_number s =
     (let (neg, s1) =
        (case s of
           [] \<Rightarrow> (False, s)
         | c # r \<Rightarrow> if c = CHR ''-'' then (True, r) else (False, s));
          ip = (case s1 of
                  [] \<Rightarrow> []
                | c # r \<Rightarrow> if c = CHR ''0'' then [c] else takeWhile is_digit s1)
      in if ip = [] then None
         else
           (let r1 = drop (length ip) s1;
                fp = (case r1 of
                        [] \<Rightarrow> []
                      | c # r \<Rightarrow> if c = CHR ''.'' then takeWhile is_digit r else []);
                r2 = (if fp = [] then r1 else drop (Suc (length fp)) r1);
                sgn = (if neg then - 1 else 1 :: int)
            in case scan_exponent r2 of
                 None \<Rightarrow>
                   if fp = [] then Some (JInt (sgn * int (digits_val ip)), r2)
                   else Some (JFloat (of_int (sgn * int (digits_val (ip @ fp)))
                                        / 10 ^ length fp), r2)
               | Some (ex, r3) \<Rightarrow>
                   (let m = of_int (sgn * int (digits_val (ip @ fp))) :: rat;
                        sh = ex - int (length fp)
                    in Some (JFloat (if 0 \<le> sh then m * 10 ^ nat sh
                                     else m / 10 ^ nat (- sh)), r3))))"

text \<open>
  The scanner proper. The first argument bounds the number of nested calls, so that the
  recursion is structural; \<open>json_loads\<close> starts it with a bound that grows with the
  length of the text. \<open>parse_array\<close> and \<open>parse_object\<close> are entered at the first
  element or member, with the elements read so far.
\<close>

fun parse_value :: "nat \<Rightarrow> string \<Rightarrow> exn + (json \<times> string)"
  and parse_array :: "nat \<Rightarrow> json list \<Rightarrow> string \<Rightarrow> exn + (json \<times> string)"
  and parse_object :: "nat \<Rightarrow> (string \<times> json) list \<Rightarrow> string \<Rightarrow> exn + (json \<times> string)"
where
  "parse_value 0 s = Inl RecursionError"
| "parse_value (Suc n) s =
     (case s of
        [] \<Rightarrow> Inl JSONDecodeError
      | c # r \<Rightarrow>
          if c = CHR 0x22 then
            (case scanstring [] r of
               Inl e \<Rightarrow> Inl e
             | Inr (t, r') \<Rightarrow> Inr (JString t, r'))
          else if c = CHR ''{'' then
            (case skip_ws r of
               [] \<Rightarrow> Inl JSONDecodeError
             | d # r' \<Rightarrow>
                 if d = CHR ''}'' then Inr (JObject [], r')
                 else parse_object n [] (d # r'))
          else if c = CHR ''['' then
            (case skip_ws r of
               [] \<Rightarrow> Inl JSONDecodeError
             | d # r' \<Rightarrow>
                 if d = CHR '']'' then Inr (JArray [], r')
                 else parse_array n [] (d # r'))
          else if prefix ''null'' s then Inr (JNull, drop 4 s)
          else if prefix ''true'' s then Inr (JBool True, drop 4 s)
          else if prefix ''false'' s then Inr (JBool False, drop 5 s)
          else
            (case scan_number s of
               Some res \<Rightarrow> Inr res
             | None \<Rightarrow>
                 if prefix ''NaN'' s then Inr (JNaN, drop 3 s)
                 else if prefix ''Infinity'' s then Inr (JInfinity False, drop 8 s)
                 else if prefix ''-Infinity'' s then Inr (JInfinity True, drop 9 s)
                 else Inl JSONDecodeError))"
| "parse_array 0 acc s = Inl RecursionError"
| "parse_array (Suc n) acc s =
     (case parse_value n s of
        Inl e \<Rightarrow> Inl e
      | Inr (v, r) \<Rightarrow>
          (case skip_ws r of
             [] \<Rightarrow> Inl JSONDecodeError
           | d # r' \<Rightarrow>
               if d = CHR '']'' then Inr (JArray (acc @ [v]), r')
               else if d = CHR '','' then parse_array n (acc @ [v]) (skip_ws r')
               else Inl JSONDecodeError))"
| "parse_object 0 acc s = Inl RecursionError"
| "parse_object (Suc n) acc s =
     (case s of
        [] \<Rightarrow> Inl JSONDecodeError
      | q # r \<Rightarrow>
          if q \<noteq> CHR 0x22 then Inl JSONDecodeError
          else
            (case scanstring [] r of
               Inl e \<Rightarrow> Inl e
             | Inr (k, r1) \<Rightarrow>
                 (case skip_ws r1 of
                    [] \<Rightarrow> Inl JSONDecodeError
                  | col # r2 \<Rightarrow>
                      if col \<noteq> CHR '':'' then Inl JSONDecodeError
                      else
                        (case parse_value n (skip_ws r2) of
                           Inl e \<Rightarrow> Inl e
                         | Inr (v, r3) \<Rightarrow>
                             (case skip_ws r3 of
                                [] \<Rightarrow> Inl JSONDecodeError
                              | d # r4 \<Rightarrow>
                                  if d = CHR ''}'' then
                                    Inr (JObject (AList.update k v acc), r4)
                                  else if d = CHR '','' then
                                    parse_object n (AList.update k v acc) (skip_ws r4)
                                  else Inl JSONDecodeError)))))"

text \<open>
  \<open>json.loads(s)\<close>: whitespace, one value, whitespace, end of text; anything left over
  is the error "Extra data".
\<close>

definition json_loads :: "string \<Rightarrow> exn + json" where
  "json_loads s =
     (case parse_value (2 * length s + 2) (skip_ws s) of
        Inl e \<Rightarrow> Inl e
      | Inr (v, r) \<Rightarrow> if skip_ws r = [] then Inr v else Inl JSONDecodeError)"

section \<open>The world and the collaborators\<close>

type_synonym path = string

text \<open>One constructor for each diagnostic line the scripts print.\<close>

datatype event =
    Processing path
  | ExtractedText path
  | FailedMetadata path
  | ExtractedMetadata string path
  | Saved path
  | ErrorProcessing path exn
  | EmptyResponse
  | FailedParse
  | RawResponse string
  | FailedExtractJSON
  | ErrorCalling exn
  | Printed string
  | ErrorOccurred exn

text \<open>
  The state the scripts change: the JSON artifacts written so far (a file holds the
  text \<open>json.dump(value, f, indent=2)\<close> of the value recorded for its path, encoded in
  UTF-8), the directories that exist, the console output, the requests sent to a
  backend (model identifier and prompt text) and the delays slept between attempts.
\<close>

record world =
  files :: "path \<rightharpoonup> json"
  dirs :: "path set"
  log :: "event list"
  requests :: "(string \<times> string) list"
  slept :: "rat list"

definition say :: "event \<Rightarrow> world \<Rightarrow> world" where
  "say e w = w\<lparr>log := log w @ [e]\<rparr>"

text \<open>
  What the hosted client returns, as \<open>extract_metadata\<close> reads it: a false value, a
  value without the key \<open>choices\<close>, or the list of choices, each with the content of its
  message (\<open>None\<close> when there is no text to call \<open>strip\<close> on).
\<close>

datatype response = NoResponse | NoChoices | Choices "string option list"

text \<open>
  The collaborators, which the scripts call but do not define. Each backend answers the
  \<open>k\<close>-th request of a run, given model identifier and prompt, with a value or an
  exception; a stream is the list of fragments delivered and the exception that ended
  it, if any. \<open>jitter\<close> is the sequence of random numbers in \<open>[0, 1)\<close> drawn for the
  delays.
\<close>

record env =
  getenv_key :: "string option"
  loader :: "path \<Rightarrow> exn + string"
  listdir :: "path \<Rightarrow> exn + string list"
  read_text :: "path \<Rightarrow> exn + string"
  together_create :: "nat \<Rightarrow> string \<Rightarrow> string \<Rightarrow> exn + response"
  together_stream :: "nat \<Rightarrow> string \<Rightarrow> string \<Rightarrow> string option list \<times> exn option"
  ollama_generate :: "nat \<Rightarrow> string \<Rightarrow> string \<Rightarrow> exn + string option list"
  jitter :: "nat \<Rightarrow> rat"
  loads :: "string \<Rightarrow> exn + json"

section \<open>The retry decorator\<close>

text \<open>
  \<open>@retry(wait=wait_random_exponential(min=1, max=120), stop=stop_after_attempt(10))\<close>.
  The decorator comes from the library tenacity; the model follows its definitions with
  the parameters of the source. \<open>wait_exponential\<close> is the upper end of the window after
  the given attempt (multiplier 1, base 2), and the delay is \<open>random.uniform(min, high)\<close>,
  that is, \<open>min + (high - min) * u\<close> for a random \<open>u\<close>.
\<close>

definition wait_min :: rat where
  "wait_min = 1"

definition wait_max :: rat where
  "wait_max = 120"

definition max_attempts :: nat where
  "max_attempts = 10"

definition wait_exponential :: "nat \<Rightarrow> rat" where
  "wait_exponential attempt = max (max 0 wait_min) (min (1 * 2 ^ (attempt - 1)) wait_max)"

definition wait_random_exponential :: "rat \<Rightarrow> nat \<Rightarrow> rat" where
  "wait_random_exponential u attempt =
     wait_min + (wait_exponential attempt - wait_min) * u"

text \<open>
  The retry loop around a call \<open>fn\<close>, from attempt number \<open>attempt\<close> (the first is 1): a
  value is returned as it is; after an exception the loop stops with \<open>RetryError\<close> when
  the attempt number has reached the maximum, and sleeps and calls again otherwise. No
  branch looks at the exception.
\<close>

function retry :: "(world \<Rightarrow> (exn + 'a) \<times> world) \<Rightarrow> (nat \<Rightarrow> rat) \<Rightarrow> nat \<Rightarrow> world
    \<Rightarrow> (exn + 'a) \<times> world" where
  "retry fn jit attempt w =
     (case fn w of
        (Inr v, w1) \<Rightarrow> (Inr v, w1)
      | (Inl e, w1) \<Rightarrow>
          if max_attempts \<le> attempt then (Inl (RetryError e), w1)
          else retry fn jit (Suc attempt)
                 (w1\<lparr>slept := slept w1
                     @ [wait_random_exponential (jit (length (slept w1))) attempt]\<rparr>))"
  by pat_completeness auto
termination
  by (relation "measure (\<lambda>(fn, jit, attempt, w). max_attempts - attempt)") auto

declare retry.simps [simp del]

section \<open>Paths and the file system\<close>

text \<open>\<open>os.path.join(a, b)\<close> on POSIX.\<close>

definition path_join :: "path \<Rightarrow> path \<Rightarrow> path" where
  "path_join a b =
     (if prefix ''/'' b then b
      else if a = [] \<or> suffix ''/'' a then a @ b
      else a @ ''/'' @ b)"

fun split_on :: "char \<Rightarrow> string \<Rightarrow> string list" where
  "split_on d [] = [[]]"
| "split_on d (c # cs) =
     (if c = d then [] # split_on d cs
      else (case split_on d cs of
              [] \<Rightarrow> [[c]]
            | h # t \<Rightarrow> (c # h) # t))"

text \<open>
  \<open>Path(p).name\<close>: the last component of the path that is neither empty nor a single
  dot, and the empty string when there is none.
\<close>

definition path_name :: "path \<Rightarrow> string" where
  "path_name p =
     (case rev (filter (\<lambda>x. x \<noteq> [] \<and> x \<noteq> ''.'') (split_on (CHR ''/'') p)) of
        [] \<Rightarrow> []
      | n # _ \<Rightarrow> n)"

text \<open>\<open>name.rfind('.')\<close>, with \<open>None\<close> for the result -1.\<close>

definition rfind_dot :: "string \<Rightarrow> nat option" where
  "rfind_dot n =
     (if CHR ''.'' \<in> set n
      then Some (length n - Suc (length (takeWhile (\<lambda>c. c \<noteq> CHR ''.'') (rev n))))
      else None)"

text \<open>\<open>Path(p).stem\<close>: the name without its last suffix.\<close>

definition path_stem :: "path \<Rightarrow> string" where
  "path_stem p =
     (let n = path_name p
      in case rfind_dot n of
           None \<Rightarrow> n
         | Some i \<Rightarrow> if 0 < i \<and> Suc i < length n then take i n else n)"

text \<open>\<open>str.lower()\<close> on 8-bit characters.\<close>

definition lower_char :: "char \<Rightarrow> char" where
  "lower_char c =
     (let k = (of_char c :: nat)
      in if (65 \<le> k \<and> k \<le> 90) \<or> (192 \<le> k \<and> k \<le> 222 \<and> k \<noteq> 215)
         then char_of (k + 32) else c)"

definition lower :: "string \<Rightarrow> string" where
  "lower s = map lower_char s"

text \<open>The filter of the directory driver: \<open>filename.lower().endswith('.pdf')\<close>.\<close>

definition is_pdf :: "string \<Rightarrow> bool" where
  "is_pdf filename = suffix ''.pdf'' (lower filename)"

text \<open>
  \<open>with open(os.path.join(folder, filename), 'w', encoding="utf-8") as f:
  json.dump(value, f, indent=2)\<close>. Opening fails when the folder does not exist; the
  empty folder name stands for the current directory. A value that \<open>json.loads\<close> returned
  can always be serialised.
\<close>

definition dump_json :: "path \<Rightarrow> string \<Rightarrow> json \<Rightarrow> world \<Rightarrow> exn option \<times> world" where
  "dump_json folder filename v w =
     (if folder = [] \<or> folder \<in> dirs w
      then (None, w\<lparr>files := (files w)(path_join folder filename \<mapsto> v)\<rparr>)
      else (Some FileNotFoundError, w))"

text \<open>\<open>os.makedirs(folder, exist_ok=True)\<close> for a plain folder name.\<close>

definition makedirs :: "path \<Rightarrow> world \<Rightarrow> world" where
  "makedirs folder w = w\<lparr>dirs := insert folder (dirs w)\<rparr>"

section \<open>The hosted script, \<open>Extract_Metadata_With_LLM.py\<close>\<close>

definition MODEL_ID :: string where
  "MODEL_ID = ''meta-llama/Meta-Llama-3.1-405B-Instruct-Turbo''"

text \<open>
  \<open>Together(api_key=key)\<close>, the constructor of the client library: it raises
  \<open>AuthenticationError\<close> when no key, or an empty key, is given and the environment
  variable \<open>TOGETHER_API_KEY\<close> (the one \<open>key\<close> was read from) provides none either.
\<close>

definition Together :: "string option \<Rightarrow> exn option" where
  "Together key =
     (case key of
        None \<Rightarrow> Some AuthenticationError
      | Some k \<Rightarrow> if k = [] then Some AuthenticationError else None)"

text \<open>
  \<open>chat_completion_with_backoff\<close>: one request to the hosted endpoint, under the retry
  decorator. The request carries the model identifier and the user message (the system
  prompt is a constant of the script).
\<close>

definition chat_completion :: "env \<Rightarrow> string \<Rightarrow> string \<Rightarrow> world \<Rightarrow> (exn + response) \<times> world" where
  "chat_completion E model_id message w =
     (together_create E (length (requests w)) model_id message,
      w\<lparr>requests := requests w @ [(model_id, message)]\<rparr>)"

definition chat_completion_with_backoff ::
    "env \<Rightarrow> string \<Rightarrow> string \<Rightarrow> world \<Rightarrow> (exn + response) \<times> world" where
  "chat_completion_with_backoff E model_id message w =
     retry (chat_completion E model_id message) (jitter E) 1 w"

definition user_message :: "string \<Rightarrow> string" where
  "user_message content =
     ''Here is the paper content:'' @ [CHR 0x0A, CHR 0x0A] @ content @ [CHR 0x0A, CHR 0x0A]
       @ ''Please extract the relevant metadata strictly as valid JSON.''"

text \<open>
  Lines 129 to 144 of \<open>extract_metadata\<close>, the response parsing step of the hosted
  variant: from the response to the value returned, with the lines printed. An
  exception that is not caught here (\<open>Inl\<close>) reaches the handler of \<open>extract_metadata\<close>.
\<close>

definition parse_response :: "(string \<Rightarrow> exn + json) \<Rightarrow> response \<Rightarrow> (exn + json) \<times> event list" where
  "parse_response lds resp =
     (case resp of
        NoResponse \<Rightarrow> (Inr (JObject []), [EmptyResponse])
      | NoChoices \<Rightarrow> (Inr (JObject []), [EmptyResponse])
      | Choices [] \<Rightarrow> (Inr (JObject []), [EmptyResponse])
      | Choices (None # _) \<Rightarrow> (Inl AttributeError, [])
      | Choices (Some content # _) \<Rightarrow>
          (let response_content = strip content
           in if response_content = [] then (Inr (JObject []), [EmptyResponse])
              else
                (case lds response_content of
                   Inr v \<Rightarrow> (Inr v, [])
                 | Inl e \<Rightarrow>
                     if e = JSONDecodeError
                     then (Inr (JObject []), [FailedParse, RawResponse response_content])
                     else (Inl e, []))))"

text \<open>
  \<open>extract_metadata(content, model_id)\<close>. The whole body stands in a \<open>try\<close> whose handler
  prints the exception and returns the empty dictionary.
\<close>

definition extract_metadata :: "env \<Rightarrow> string \<Rightarrow> string \<Rightarrow> world \<Rightarrow> (exn + json) \<times> world" where
  "extract_metadata E content model_id w =
     (case chat_completion_with_backoff E model_id (user_message content) w of
        (Inl e, w1) \<Rightarrow> (Inr (JObject []), say (ErrorCalling e) w1)
      | (Inr resp, w1) \<Rightarrow>
          (case parse_response (loads E) resp of
             (Inl e, out) \<Rightarrow> (Inr (JObject []), say (ErrorCalling e) (w1\<lparr>log := log w1 @ out\<rparr>))
           | (Inr v, out) \<Rightarrow> (Inr v, w1\<lparr>log := log w1 @ out\<rparr>)))"

text \<open>
  The three steps of \<open>process_research_paper\<close> inside its \<open>try\<close>; \<open>Some e\<close> is an
  exception raised in them, with the world at that moment.
\<close>

definition paper_steps :: "env \<Rightarrow> path \<Rightarrow> path \<Rightarrow> string \<Rightarrow> world \<Rightarrow> exn option \<times> world" where
  "paper_steps E pdf_path output_folder model_id w =
     (case loader E pdf_path of
        Inl e \<Rightarrow> (Some e, w)
      | Inr content \<Rightarrow>
          (case extract_metadata E content model_id (say (ExtractedText pdf_path) w) of
             (Inl e, w1) \<Rightarrow> (Some e, w1)
           | (Inr metadata, w1) \<Rightarrow>
               if \<not> truthy metadata then (None, say (FailedMetadata pdf_path) w1)
               else
                 (let w2 = say (ExtractedMetadata model_id pdf_path) w1;
                      output_filename = path_stem pdf_path @ ''.json''
                  in case dump_json output_folder output_filename metadata w2 of
                       (Some e, w3) \<Rightarrow> (Some e, w3)
                     | (None, w3) \<Rightarrow>
                         (None, say (Saved (path_join output_folder output_filename)) w3))))"

text \<open>\<open>process_research_paper(pdf_path, output_folder, model_id)\<close>\<close>

definition process_research_paper :: "env \<Rightarrow> path \<Rightarrow> path \<Rightarrow> string \<Rightarrow> world \<Rightarrow> exn option \<times> world" where
  "process_research_paper E pdf_path output_folder model_id w =
     (case paper_steps E pdf_path output_folder model_id (say (Processing pdf_path) w) of
        (Some e, w1) \<Rightarrow> (None, say (ErrorProcessing pdf_path e) w1)
      | (None, w1) \<Rightarrow> (None, w1))"

text \<open>
  The loop of \<open>process_directory\<close> over the listing: an exception that leaves a call of
  \<open>process_research_paper\<close> would end the loop.
\<close>

fun process_files :: "env \<Rightarrow> path \<Rightarrow> path \<Rightarrow> string \<Rightarrow> string list \<Rightarrow> world \<Rightarrow> exn option \<times> world" where
  "process_files E directory_path output_folder model_id [] w = (None, w)"
| "process_files E directory_path output_folder model_id (filename # rest) w =
     (if is_pdf filename then
        (case process_research_paper E (path_join directory_path filename)
                output_folder model_id w of
           (Some e, w1) \<Rightarrow> (Some e, w1)
         | (None, w1) \<Rightarrow> process_files E directory_path output_folder model_id rest w1)
      else process_files E directory_path output_folder model_id rest w)"

text \<open>\<open>process_directory(directory_path, output_folder, model_id)\<close>\<close>

definition process_directory :: "env \<Rightarrow> path \<Rightarrow> path \<Rightarrow> string \<Rightarrow> world \<Rightarrow> exn option \<times> world" where
  "process_directory E directory_path output_folder model_id w =
     (case listdir E directory_path of
        Inl e \<Rightarrow> (Some e, w)
      | Inr filenames \<Rightarrow> process_files E directory_path output_folder model_id filenames w)"

text \<open>
  Running the script: the module level creates the client from the key found in the
  environment, then the main block creates the output folder and processes one paper
  and one directory.
\<close>

definition main :: "env \<Rightarrow> world \<Rightarrow> exn option \<times> world" where
  "main E w =
     (case Together (getenv_key E) of
        Some e \<Rightarrow> (Some e, w)
      | None \<Rightarrow>
          (let w1 = makedirs ''extracted_metadata'' w
           in case process_research_paper E ''data/1706.03762v7.pdf''
                     ''extracted_metadata'' MODEL_ID w1 of
                (Some e, w2) \<Rightarrow> (Some e, w2)
              | (None, w2) \<Rightarrow> process_directory E ''data'' ''extracted_metadata'' MODEL_ID w2))"

section \<open>The local script, \<open>Extract_Metadata_With_LLM_ollama.py\<close>\<close>

definition MODEL_ID_ollama :: string where
  "MODEL_ID_ollama = ''llama-3.2-8b''"

text \<open>
  The loop over the streamed chunks, \<open>generated_text.append(chunk["text"])\<close>, and the
  final \<open>"".join\<close>: a chunk without the key \<open>text\<close> (\<open>None\<close>) raises \<open>KeyError\<close>.
\<close>

fun join_chunks :: "string option list \<Rightarrow> exn + string" where
  "join_chunks [] = Inr []"
| "join_chunks (None # chunks) = Inl KeyError"
| "join_chunks (Some t # chunks) =
     (case join_chunks chunks of
        Inl e \<Rightarrow> Inl e
      | Inr r \<Rightarrow> Inr (t @ r))"

text \<open>
  The body of \<open>ollama_completion_with_backoff(model_id, prompt)\<close>: what the \<open>k\<close>-th
  request of the run returns or raises, the call as it acts on the world, and the call
  under the retry decorator.
\<close>

definition ollama_attempt :: "env \<Rightarrow> nat \<Rightarrow> string \<Rightarrow> string \<Rightarrow> exn + string" where
  "ollama_attempt E k model_id prompt =
     (case ollama_generate E k model_id prompt of
        Inl e \<Rightarrow> Inl e
      | Inr chunks \<Rightarrow> join_chunks chunks)"

definition ollama_completion :: "env \<Rightarrow> string \<Rightarrow> string \<Rightarrow> world \<Rightarrow> (exn + string) \<times> world" where
  "ollama_completion E model_id prompt w =
     (ollama_attempt E (length (requests w)) model_id prompt,
      w\<lparr>requests := requests w @ [(model_id, prompt)]\<rparr>)"

definition ollama_completion_with_backoff ::
    "env \<Rightarrow> string \<Rightarrow> string \<Rightarrow> world \<Rightarrow> (exn + string) \<times> world" where
  "ollama_completion_with_backoff E model_id prompt w =
     retry (ollama_completion E model_id prompt) (jitter E) 1 w"

definition combined_prompt :: "string \<Rightarrow> string \<Rightarrow> string" where
  "combined_prompt prompt_data content =
     prompt_data @ [CHR 0x0A, CHR 0x0A] @ ''Here is the paper content:''
       @ [CHR 0x0A, CHR 0x0A] @ content @ [CHR 0x0A, CHR 0x0A]
       @ ''Please extract the relevant metadata in JSON format.''"

text \<open>
  Lines 68 to 92 of \<open>extract_metadata\<close>, the response parsing step of the local variant,
  from the text the backend call returned: trimming, the check for an empty response,
  the fence cleanup, the strict parse and, when that fails, the parse of the text
  between the first opening and the last closing brace.
\<close>

definition parse_response_ollama :: "(string \<Rightarrow> exn + json) \<Rightarrow> string \<Rightarrow> (exn + json) \<times> event list" where
  "parse_response_ollama lds raw =
     (let response_content = strip raw
      in if response_content = [] then (Inr (JObject []), [EmptyResponse])
         else
           (let cleaned = clean_fences response_content
            in case lds cleaned of
                 Inr v \<Rightarrow> (Inr v, [])
               | Inl e \<Rightarrow>
                   if e \<noteq> JSONDecodeError then (Inl e, [])
                   else
                     (case search_braces cleaned of
                        None \<Rightarrow> (Inr (JObject []), [FailedParse, RawResponse cleaned])
                      | Some m \<Rightarrow>
                          (case lds m of
                             Inr v \<Rightarrow> (Inr v, [FailedParse, RawResponse cleaned])
                           | Inl e2 \<Rightarrow>
                               if e2 = JSONDecodeError
                               then (Inr (JObject []),
                                     [FailedParse, RawResponse cleaned, FailedExtractJSON])
                               else (Inl e2, [FailedParse, RawResponse cleaned])))))"

text \<open>
  \<open>extract_metadata(content, prompt_path, model_id)\<close>. Reading the prompt file precedes
  the \<open>try\<close>, so its exception leaves the function.
\<close>

definition extract_metadata_ollama ::
    "env \<Rightarrow> string \<Rightarrow> path \<Rightarrow> string \<Rightarrow> world \<Rightarrow> (exn + json) \<times> world" where
  "extract_metadata_ollama E content prompt_path model_id w =
     (case read_text E prompt_path of
        Inl e \<Rightarrow> (Inl e, w)
      | Inr prompt_data \<Rightarrow>
          (case ollama_completion_with_backoff E model_id
                  (combined_prompt prompt_data content) w of
             (Inl e, w1) \<Rightarrow> (Inr (JObject []), say (ErrorCalling e) w1)
           | (Inr raw, w1) \<Rightarrow>
               (case parse_response_ollama (loads E) raw of
                  (Inl e, out) \<Rightarrow>
                    (Inr (JObject []), say (ErrorCalling e) (w1\<lparr>log := log w1 @ out\<rparr>))
                | (Inr v, out) \<Rightarrow> (Inr v, w1\<lparr>log := log w1 @ out\<rparr>))))"

definition paper_steps_ollama ::
    "env \<Rightarrow> path \<Rightarrow> path \<Rightarrow> path \<Rightarrow> string \<Rightarrow> world \<Rightarrow> exn option \<times> world" where
  "paper_steps_ollama E pdf_path prompt_path output_folder model_id w =
     (case loader E pdf_path of
        Inl e \<Rightarrow> (Some e, w)
      | Inr content \<Rightarrow>
          (case extract_metadata_ollama E content prompt_path model_id
                  (say (ExtractedText pdf_path) w) of
             (Inl e, w1) \<Rightarrow> (Some e, w1)
           | (Inr metadata, w1) \<Rightarrow>
               if \<not> truthy metadata then (None, say (FailedMetadata pdf_path) w1)
               else
                 (let w2 = say (ExtractedMetadata model_id pdf_path) w1;
                      output_filename = path_stem pdf_path @ ''.json''
                  in case dump_json output_folder output_filename metadata w2 of
                       (Some e, w3) \<Rightarrow> (Some e, w3)
                     | (None, w3) \<Rightarrow>
                         (None, say (Saved (path_join output_folder output_filename)) w3))))"

text \<open>\<open>process_research_paper(pdf_path, prompt_path, output_folder, model_id)\<close>\<close>

definition process_research_paper_ollama ::
    "env \<Rightarrow> path \<Rightarrow> path \<Rightarrow> path \<Rightarrow> string \<Rightarrow> world \<Rightarrow> exn option \<times> world" where
  "process_research_paper_ollama E pdf_path prompt_path output_folder model_id w =
     (case paper_steps_ollama E pdf_path prompt_path output_folder model_id
             (say (Processing pdf_path) w) of
        (Some e, w1) \<Rightarrow> (None, say (ErrorProcessing pdf_path e) w1)
      | (None, w1) \<Rightarrow> (None, w1))"

fun process_files_ollama ::
    "env \<Rightarrow> path \<Rightarrow> path \<Rightarrow> path \<Rightarrow> string \<Rightarrow> string list \<Rightarrow> world \<Rightarrow> exn option \<times> world" where
  "process_files_ollama E prompt_path directory_path output_folder model_id [] w = (None, w)"
| "process_files_ollama E prompt_path directory_path output_folder model_id (filename # rest) w =
     (if is_pdf filename then
        (case process_research_paper_ollama E (path_join directory_path filename)
                prompt_path output_folder model_id w of
           (Some e, w1) \<Rightarrow> (Some e, w1)
         | (None, w1) \<Rightarrow>
             process_files_ollama E prompt_path directory_path output_folder model_id rest w1)
      else process_files_ollama E prompt_path directory_path output_folder model_id rest w)"

text \<open>\<open>process_directory(prompt_path, directory_path, output_folder, model_id)\<close>\<close>

definition process_directory_ollama ::
    "env \<Rightarrow> path \<Rightarrow> path \<Rightarrow> path \<Rightarrow> string \<Rightarrow> world \<Rightarrow> exn option \<times> world" where
  "process_directory_ollama E prompt_path directory_path output_folder model_id w =
     (case listdir E directory_path of
        Inl e \<Rightarrow> (Some e, w)
      | Inr filenames \<Rightarrow>
          process_files_ollama E prompt_path directory_path output_folder model_id filenames w)"

text \<open>The main block of the local script; it does not create the output folder.\<close>

definition main_ollama :: "env \<Rightarrow> world \<Rightarrow> exn option \<times> world" where
  "main_ollama E w =
     (case process_research_paper_ollama E ''data/1706.03762v7.pdf'' ''prompt.txt''
             ''extracted_metadata'' MODEL_ID_ollama w of
        (Some e, w1) \<Rightarrow> (Some e, w1)
      | (None, w1) \<Rightarrow>
          process_directory_ollama E ''prompt.txt'' ''data'' ''extracted_metadata''
            MODEL_ID_ollama w1)"

section \<open>The demonstration script, \<open>Code.py\<close>\<close>

text \<open>
  The loop over the stream: a fragment is printed when its content is neither absent
  nor empty.
\<close>

fun print_chunks :: "string option list \<Rightarrow> world \<Rightarrow> world" where
  "print_chunks [] w = w"
| "print_chunks (None # chunks) w = print_chunks chunks w"
| "print_chunks (Some t # chunks) w =
     print_chunks chunks (if t = [] then w else say (Printed t) w)"

text \<open>
  The script: the key is checked before the client is created; the request and the
  printing stand in a \<open>try\<close> whose handler prints the exception.
\<close>

definition main_code :: "env \<Rightarrow> world \<Rightarrow> exn option \<times> world" where
  "main_code E w =
     (case getenv_key E of
        None \<Rightarrow> (Some ValueError, w)
      | Some k \<Rightarrow>
          if k = [] then (Some ValueError, w)
          else
            (case Together (Some k) of
               Some e \<Rightarrow> (Some e, w)
             | None \<Rightarrow>
                 (let model = ''meta-llama/Meta-Llama-3.1-8B-Instruct-Turbo'';
                      question = ''What are the top 3 things to do in New York?'';
                      (chunks, failure) = together_stream E (length (requests w)) model question;
                      w1 = print_chunks chunks (w\<lparr>requests := requests w @ [(model, question)]\<rparr>)
                  in case failure of
                       None \<Rightarrow> (None, w1)
                     | Some e \<Rightarrow> (None, say (ErrorOccurred e) w1))))"

section \<open>Scenarios\<close>

text \<open>Scenario A of the specification: an object inside a fence with the tag \<open>json\<close>.\<close>

definition scenario_A :: string where
  "scenario_A = json_fence @ [CHR 0x0A] @ ''{\"PaperTitle\": \"X\"}'' @ [CHR 0x0A] @ fence"


text \<open>The result the specification gives for scenario A.\<close>

definition scenario_A_expected :: json where
  "scenario_A_expected =
     JObject [(''PaperTitle'', JString ''X''), (''PublicationYear'', JString []),
              (''Authors'', JArray []), (''AuthorContact'', JArray []),
              (''Abstract'', JString []), (''SummaryAbstract'', JString [])]"

text \<open>The object of scenario A without its fence.\<close>

definition unwrapped_A :: string where
  "unwrapped_A = ''{\"PaperTitle\": \"X\"}''"







text \<open>The start of the run, before any effect.\<close>

definition world0 :: "path set \<Rightarrow> world" where
  "world0 ds = \<lparr>files = Map.empty, dirs = ds, log = [], requests = [], slept = []\<rparr>"

text \<open>
  A sample environment: the key found at start, the listing of every directory, and the
  text with which the backend answers the \<open>k\<close>-th request (or the exception it raises).
  Every document yields text, the prompt file is readable, each random number is one
  half, and JSON is read by \<open>json_loads\<close>.
\<close>

definition sample_env :: "string option \<Rightarrow> string list \<Rightarrow> (nat \<Rightarrow> exn + string) \<Rightarrow> env" where
  "sample_env key names answer =
     \<lparr>getenv_key = key,
      loader = (\<lambda>p. Inr ''paper text''),
      listdir = (\<lambda>d. Inr names),
      read_text = (\<lambda>p. Inr ''prompt''),
      together_create = (\<lambda>k m p. map_sum id (\<lambda>t. Choices [Some t]) (answer k)),
      together_stream = (\<lambda>k m p. ([], None)),
      ollama_generate = (\<lambda>k m p. map_sum id (\<lambda>t. [Some t]) (answer k)),
      jitter = (\<lambda>k. 1 / 2),
      loads = json_loads\<rparr>"

text \<open>
  A backend that raises twice and then answers with an empty object, and a backend that
  always raises.
\<close>

definition flaky_env :: env where
  "flaky_env =
     sample_env (Some ''key'') []
       (\<lambda>k. if k < 2 then Inl (OtherError ''timeout'') else Inr ''{}'')"

definition down_env :: env where
  "down_env = sample_env (Some ''key'') [] (\<lambda>k. Inl (OtherError ''refused''))"

text \<open>
  The documents whose processing has started, in order: the paths of the lines
  "Processing research paper: ..." of a console output.
\<close>

fun started :: "event list \<Rightarrow> path list" where
  "started [] = []"
| "started (Processing p # evs) = p # started evs"
| "started (e # evs) = started evs"

text \<open>
  A directory with two documents and one other file, an unreadable document loader, and
  a backend that answers with the empty object, with the object of scenario A, or with
  prose.
\<close>

definition listing :: "string list" where
  "listing = [''a.pdf'', ''notes.txt'', ''b.PDF'']"

definition unreadable_env :: env where
  "unreadable_env =
     (sample_env (Some ''key'') listing (\<lambda>k. Inr ''{}''))
       \<lparr>loader := (\<lambda>p. Inl (OtherError ''unreadable''))\<rparr>"

definition empty_object_env :: env where
  "empty_object_env = sample_env (Some ''key'') listing (\<lambda>k. Inr ''{}'')"

definition scenario_A_env :: env where
  "scenario_A_env = sample_env (Some ''key'') listing (\<lambda>k. Inr unwrapped_A)"

definition prose_env :: env where
  "prose_env = sample_env (Some ''key'') listing (\<lambda>k. Inr ''oops'')"

section \<open>Trimming\<close>

lemma lstrip_Nil_iff: "lstrip s = [] \<longleftrightarrow> (\<forall>c \<in> set s. is_space c)"
  by (simp add: lstrip_def dropWhile_eq_Nil_conv)

lemma rstrip_Nil_iff: "rstrip s = [] \<longleftrightarrow> (\<forall>c \<in> set s. is_space c)"
  by (simp add: rstrip_def dropWhile_eq_Nil_conv)

lemma strip_Nil_iff: "strip s = [] \<longleftrightarrow> (\<forall>c \<in> set s. is_space c)"
proof
  assume "strip s = []"
  then have all: "\<forall>c \<in> set (lstrip s). is_space c"
    by (simp add: strip_def rstrip_Nil_iff)
  have "lstrip s = []"
  proof (rule ccontr)
    assume ne: "lstrip s \<noteq> []"
    then have "\<not> is_space (hd (lstrip s))"
      unfolding lstrip_def by (rule hd_dropWhile)
    moreover have "hd (lstrip s) \<in> set (lstrip s)"
      using ne by simp
    ultimately show False using all by blast
  qed
  then show "\<forall>c \<in> set s. is_space c"
    by (simp add: lstrip_Nil_iff)
next
  assume "\<forall>c \<in> set s. is_space c"
  then have "lstrip s = []"
    by (simp add: lstrip_Nil_iff)
  then show "strip s = []"
    by (simp add: strip_def rstrip_def)
qed







section \<open>Brace extraction\<close>


section \<open>Fence cleanup\<close>























section \<open>Empty responses\<close>

text \<open>
  Claim C4. For an empty response, and for one that consists of whitespace only, the
  response parsing step of either variant returns the empty dictionary and raises
  nothing; the only line printed is the one for an empty response.
\<close>

theorem empty_response_sentinel:
  assumes "\<forall>c \<in> set raw. is_space c"
  shows "parse_response lds (Choices (Some raw # cs)) = (Inr (JObject []), [EmptyResponse])
       \<and> parse_response_ollama lds raw = (Inr (JObject []), [EmptyResponse])"
proof -
  from assms have "strip raw = []"
    by (simp add: strip_Nil_iff)
  then show ?thesis
    by (simp add: parse_response_def parse_response_ollama_def)
qed

theorem empty_response_sentinel_witness:
  "list_all is_space [CHR '' '', CHR 0x0A, CHR 0x09]
   \<and> parse_response json_loads (Choices [Some [CHR '' '', CHR 0x0A, CHR 0x09]])
       = (Inr (JObject []), [EmptyResponse])
   \<and> parse_response_ollama json_loads [CHR '' '', CHR 0x0A, CHR 0x09]
       = (Inr (JObject []), [EmptyResponse])"
proof -
  have h: "\<forall>c \<in> set [CHR '' '', CHR 0x0A, CHR 0x09]. is_space c"
    by (simp add: is_space_def)
  show ?thesis
    using h empty_response_sentinel [OF h, of json_loads "[]"] by (simp add: list_all_iff)
qed

section \<open>Missing credential\<close>

text \<open>
  Claim C6. When the environment provides no API key, the demonstration script raises
  \<open>ValueError\<close> and the hosted script raises the \<open>AuthenticationError\<close> of the client
  constructor; in both cases the world is the one the script started in: no request
  has been sent, nothing has been printed and no document has been touched.
\<close>

theorem missing_credential_is_fatal:
  assumes "getenv_key E = None"
  shows "main_code E w = (Some ValueError, w) \<and> main E w = (Some AuthenticationError, w)"
  using assms by (simp add: main_code_def main_def Together_def)

theorem missing_credential_is_fatal_witness:
  "getenv_key (sample_env None [] (\<lambda>k. Inr [])) = None
   \<and> main_code (sample_env None [] (\<lambda>k. Inr [])) (world0 {}) = (Some ValueError, world0 {})
   \<and> main (sample_env None [] (\<lambda>k. Inr [])) (world0 {}) = (Some AuthenticationError, world0 {})"
proof -
  have h: "getenv_key (sample_env None [] (\<lambda>k. Inr [])) = None"
    by (simp add: sample_env_def)
  show ?thesis
    using h missing_credential_is_fatal [OF h, of "world0 {}"] by simp
qed

section \<open>What a successful parse returns\<close>

lemma eval_A_local:
  "parse_response_ollama json_loads scenario_A
     = (Inr (JObject [(''PaperTitle'', JString ''X'')]), [])"
  by code_simp

lemma eval_A_hosted:
  "fst (parse_response json_loads (Choices [Some scenario_A])) = Inr (JObject [])"
  by code_simp

lemma eval_unwrapped_A_hosted:
  "parse_response json_loads (Choices [Some unwrapped_A])
     = (Inr (JObject [(''PaperTitle'', JString ''X'')]), [])"
  by code_simp

text \<open>
  Claim C1 as stated fails on scenario A: the local variant returns the object with its
  single key, without the five defaults of the specification, and the hosted variant,
  which does not remove fences, returns the empty dictionary.
\<close>

theorem defaults_not_filled_counterexample:
  "fst (parse_response_ollama json_loads scenario_A) = Inr (JObject [(''PaperTitle'', JString ''X'')])
   \<and> fst (parse_response_ollama json_loads scenario_A) \<noteq> Inr scenario_A_expected
   \<and> fst (parse_response json_loads (Choices [Some scenario_A])) = Inr (JObject [])
   \<and> fst (parse_response json_loads (Choices [Some scenario_A])) \<noteq> Inr scenario_A_expected"
  by (simp add: eval_A_local eval_A_hosted scenario_A_expected_def)

text \<open>
  Claim C1, amended. When the strict parse of the cleaned text (local variant) or of the
  trimmed text (hosted variant) succeeds, the parsing step returns the parsed value as
  it is and prints nothing: no key is added and nothing is checked against the shape
  of \<open>PaperMetadata\<close>.
\<close>

theorem parsed_value_returned_unchanged:
  "(strip raw \<noteq> [] \<and> lds (clean_fences (strip raw)) = Inr v
      \<longrightarrow> parse_response_ollama lds raw = (Inr v, []))
   \<and> (strip raw \<noteq> [] \<and> lds (strip raw) = Inr v
      \<longrightarrow> parse_response lds (Choices (Some raw # cs)) = (Inr v, []))"
  by (simp add: parse_response_ollama_def parse_response_def)

lemma eval_strip_A: "strip scenario_A \<noteq> []"
  by code_simp

lemma eval_loads_A:
  "json_loads (clean_fences (strip scenario_A)) = Inr (JObject [(''PaperTitle'', JString ''X'')])"
  by code_simp

lemma eval_strip_unwrapped_A: "strip unwrapped_A \<noteq> []"
  by code_simp

lemma eval_loads_unwrapped_A:
  "json_loads (strip unwrapped_A) = Inr (JObject [(''PaperTitle'', JString ''X'')])"
  by code_simp

theorem parsed_value_returned_unchanged_witness:
  "strip scenario_A \<noteq> []
   \<and> json_loads (clean_fences (strip scenario_A)) = Inr (JObject [(''PaperTitle'', JString ''X'')])
   \<and> parse_response_ollama json_loads scenario_A
       = (Inr (JObject [(''PaperTitle'', JString ''X'')]), [])
   \<and> strip unwrapped_A \<noteq> []
   \<and> json_loads (strip unwrapped_A) = Inr (JObject [(''PaperTitle'', JString ''X'')])
   \<and> parse_response json_loads (Choices [Some unwrapped_A])
       = (Inr (JObject [(''PaperTitle'', JString ''X'')]), [])"
  using parsed_value_returned_unchanged
          [of scenario_A json_loads "JObject [(''PaperTitle'', JString ''X'')]" "[]"]
        parsed_value_returned_unchanged
          [of unwrapped_A json_loads "JObject [(''PaperTitle'', JString ''X'')]" "[]"]
        eval_strip_A eval_loads_A eval_strip_unwrapped_A eval_loads_unwrapped_A
  by blast

section \<open>Recovery of an object between prose\<close>










section \<open>Fenced responses\<close>











section \<open>Fence tokens inside the response\<close>






section \<open>The retry policy\<close>

lemma wait_exponential_range: "wait_min \<le> wait_exponential n \<and> wait_exponential n \<le> wait_max"
  by (simp add: wait_exponential_def wait_min_def wait_max_def)

lemma wait_random_exponential_range:
  assumes "0 \<le> u" "u \<le> 1"
  shows "1 \<le> wait_random_exponential u n \<and> wait_random_exponential u n \<le> 120"
proof -
  let ?h = "wait_exponential n"
  have h: "1 \<le> ?h" "?h \<le> 120"
    using wait_exponential_range [of n] by (simp_all add: wait_min_def wait_max_def)
  have "0 \<le> (?h - 1) * u"
    using h(1) assms(1) by simp
  moreover have "(?h - 1) * u \<le> (?h - 1) * 1"
    using h(1) assms(2) by (intro mult_left_mono) simp_all
  ultimately show ?thesis
    using h(2) by (simp add: wait_random_exponential_def wait_min_def)
qed

lemma retry_succeeds:
  fixes fn :: "world \<Rightarrow> (exn + 'a) \<times> world"
  assumes fn: "\<And>w. fn w = (orc (length (requests w)), w\<lparr>requests := requests w @ [r]\<rparr>)"
    and "\<forall>i<N. orc (length (requests w) + i) = Inl (ex i)"
    and "orc (length (requests w) + N) = Inr v"
    and "a + N \<le> max_attempts"
  shows "fst (retry fn jit a w) = Inr v
       \<and> requests (snd (retry fn jit a w)) = requests w @ replicate (Suc N) r
       \<and> length (slept (snd (retry fn jit a w))) = length (slept w) + N"
  using assms(2-)
proof (induction N arbitrary: a w ex)
  case 0
  then show ?case
    by (subst (1 2 3) retry.simps) (simp add: fn)
next
  case (Suc N)
  let ?w1 = "w\<lparr>requests := requests w @ [r]\<rparr>"
  let ?w2 = "?w1\<lparr>slept := slept ?w1 @ [wait_random_exponential (jit (length (slept ?w1))) a]\<rparr>"
  have first: "orc (length (requests w)) = Inl (ex 0)"
    using Suc.prems(1) by (metis add.right_neutral zero_less_Suc)
  have na: "\<not> max_attempts \<le> a"
    using Suc.prems(3) by simp
  have step: "retry fn jit a w = retry fn jit (Suc a) ?w2"
    by (subst retry.simps) (simp add: fn first na)
  have "\<forall>i<N. orc (length (requests ?w2) + i) = Inl (ex (Suc i))"
  proof (intro allI impI)
    fix i
    assume "i < N"
    then have "Suc i < Suc N" by simp
    with Suc.prems(1) have "orc (length (requests w) + Suc i) = Inl (ex (Suc i))"
      by blast
    then show "orc (length (requests ?w2) + i) = Inl (ex (Suc i))"
      by simp
  qed
  moreover have "orc (length (requests ?w2) + N) = Inr v"
    using Suc.prems(2) by simp
  moreover have "Suc a + N \<le> max_attempts"
    using Suc.prems(3) by simp
  ultimately have "fst (retry fn jit (Suc a) ?w2) = Inr v
       \<and> requests (snd (retry fn jit (Suc a) ?w2)) = requests ?w2 @ replicate (Suc N) r
       \<and> length (slept (snd (retry fn jit (Suc a) ?w2))) = length (slept ?w2) + N"
    by (rule Suc.IH)
  then show ?case
    unfolding step by (simp add: replicate_app_Cons_same)
qed

lemma retry_exhausts:
  fixes fn :: "world \<Rightarrow> (exn + 'a) \<times> world"
  assumes fn: "\<And>w. fn w = (orc (length (requests w)), w\<lparr>requests := requests w @ [r]\<rparr>)"
    and "\<forall>i\<le>n. orc (length (requests w) + i) = Inl (ex i)"
    and "a + n = max_attempts"
  shows "fst (retry fn jit a w) = Inl (RetryError (ex n))
       \<and> requests (snd (retry fn jit a w)) = requests w @ replicate (Suc n) r
       \<and> length (slept (snd (retry fn jit a w))) = length (slept w) + n"
  using assms(2-)
proof (induction n arbitrary: a w ex)
  case 0
  then show ?case
    by (subst (1 2 3) retry.simps) (simp add: fn)
next
  case (Suc n)
  let ?w1 = "w\<lparr>requests := requests w @ [r]\<rparr>"
  let ?w2 = "?w1\<lparr>slept := slept ?w1 @ [wait_random_exponential (jit (length (slept ?w1))) a]\<rparr>"
  have first: "orc (length (requests w)) = Inl (ex 0)"
    using Suc.prems(1) by (metis add.right_neutral le0)
  have na: "\<not> max_attempts \<le> a"
    using Suc.prems(2) by simp
  have step: "retry fn jit a w = retry fn jit (Suc a) ?w2"
    by (subst retry.simps) (simp add: fn first na)
  have "\<forall>i\<le>n. orc (length (requests ?w2) + i) = Inl (ex (Suc i))"
  proof (intro allI impI)
    fix i
    assume "i \<le> n"
    then have "Suc i \<le> Suc n" by simp
    with Suc.prems(1) have "orc (length (requests w) + Suc i) = Inl (ex (Suc i))"
      by blast
    then show "orc (length (requests ?w2) + i) = Inl (ex (Suc i))"
      by simp
  qed
  moreover have "Suc a + n = max_attempts"
    using Suc.prems(2) by simp
  ultimately have "fst (retry fn jit (Suc a) ?w2) = Inl (RetryError (ex (Suc n)))
       \<and> requests (snd (retry fn jit (Suc a) ?w2)) = requests ?w2 @ replicate (Suc n) r
       \<and> length (slept (snd (retry fn jit (Suc a) ?w2))) = length (slept ?w2) + n"
    by (rule Suc.IH)
  then show ?case
    unfolding step by (simp add: replicate_app_Cons_same)
qed

lemma retry_delays:
  fixes fn :: "world \<Rightarrow> (exn + 'a) \<times> world"
  assumes fn: "\<And>w. slept (snd (fn w)) = slept w"
    and jit: "\<And>k. 0 \<le> jit k \<and> jit k \<le> 1"
  shows "\<exists>ds. slept (snd (retry fn jit a w)) = slept w @ ds
              \<and> (\<forall>d \<in> set ds. 1 \<le> d \<and> d \<le> 120)"
proof (induction "max_attempts - a" arbitrary: a w)
  case 0
  obtain res w1 where f: "fn w = (res, w1)"
    by (cases "fn w")
  then have "slept w1 = slept w"
    using fn [of w] by simp
  moreover have "snd (retry fn jit a w) = w1"
    using 0 f by (subst retry.simps) (simp split: sum.splits)
  ultimately have "slept (snd (retry fn jit a w)) = slept w @ []"
    by simp
  then show ?case by fastforce
next
  case (Suc n)
  obtain res w1 where f: "fn w = (res, w1)"
    by (cases "fn w")
  then have w1: "slept w1 = slept w"
    using fn [of w] by simp
  show ?case
  proof (cases res)
    case (Inr v)
    then have "snd (retry fn jit a w) = w1"
      using f by (subst retry.simps) simp
    then have "slept (snd (retry fn jit a w)) = slept w @ []"
      using w1 by simp
    then show ?thesis by fastforce
  next
    case (Inl e)
    let ?d = "wait_random_exponential (jit (length (slept w1))) a"
    let ?w2 = "w1\<lparr>slept := slept w1 @ [?d]\<rparr>"
    have na: "\<not> max_attempts \<le> a"
      using Suc.hyps(2) by simp
    have step: "retry fn jit a w = retry fn jit (Suc a) ?w2"
      using f Inl na by (subst retry.simps) simp
    have "n = max_attempts - Suc a"
      using Suc.hyps(2) by simp
    from Suc.hyps(1) [OF this, of ?w2]
    obtain ds where ds: "slept (snd (retry fn jit (Suc a) ?w2)) = slept ?w2 @ ds"
        "\<forall>d \<in> set ds. 1 \<le> d \<and> d \<le> 120"
      by blast
    have d: "1 \<le> ?d \<and> ?d \<le> 120"
      using jit by (intro wait_random_exponential_range) simp_all
    have "slept (snd (retry fn jit a w)) = slept w @ (?d # ds)"
      unfolding step using ds(1) w1 by simp
    moreover have "\<forall>x \<in> set (?d # ds). 1 \<le> x \<and> x \<le> 120"
      using d ds(2) by simp
    ultimately show ?thesis by blast
  qed
qed

lemma chat_completion_form:
  "chat_completion E m p w
     = ((\<lambda>k. together_create E k m p) (length (requests w)),
        w\<lparr>requests := requests w @ [(m, p)]\<rparr>)"
  by (simp add: chat_completion_def)

lemma ollama_completion_form:
  "ollama_completion E m p w
     = ((\<lambda>k. ollama_attempt E k m p) (length (requests w)),
        w\<lparr>requests := requests w @ [(m, p)]\<rparr>)"
  by (simp add: ollama_completion_def)

lemma backoff_succeeds:
  fixes fn :: "world \<Rightarrow> (exn + 'a) \<times> world"
  assumes "\<And>w. fn w = (orc (length (requests w)), w\<lparr>requests := requests w @ [r]\<rparr>)"
    and "N < 10"
    and "\<forall>i<N. orc (length (requests w) + i) = Inl (ex i)"
    and "orc (length (requests w) + N) = Inr v"
  shows "fst (retry fn jit 1 w) = Inr v
       \<and> length (requests (snd (retry fn jit 1 w))) = length (requests w) + N + 1
       \<and> length (slept (snd (retry fn jit 1 w))) = length (slept w) + N"
proof -
  have "1 + N \<le> max_attempts"
    using assms(2) by (simp add: max_attempts_def)
  from retry_succeeds [of fn orc r N w ex v 1 jit, OF assms(1) assms(3) assms(4) this]
  show ?thesis by simp
qed

lemma backoff_exhausts:
  fixes fn :: "world \<Rightarrow> (exn + 'a) \<times> world"
  assumes "\<And>w. fn w = (orc (length (requests w)), w\<lparr>requests := requests w @ [r]\<rparr>)"
    and "\<forall>i<10. orc (length (requests w) + i) = Inl (ex i)"
  shows "fst (retry fn jit 1 w) = Inl (RetryError (ex 9))
       \<and> length (requests (snd (retry fn jit 1 w))) = length (requests w) + 10
       \<and> length (slept (snd (retry fn jit 1 w))) = length (slept w) + 9"
proof -
  have 1: "\<forall>i\<le>9. orc (length (requests w) + i) = Inl (ex i)"
    using assms(2) by simp
  have 2: "1 + 9 = max_attempts"
    by (simp add: max_attempts_def)
  from retry_exhausts [of fn orc r 9 w ex 1 jit, OF assms(1) 1 2]
  show ?thesis by simp
qed

lemma backoff_delays:
  fixes fn :: "world \<Rightarrow> (exn + 'a) \<times> world"
  assumes "\<And>w. fn w = (orc (length (requests w)), w\<lparr>requests := requests w @ [r]\<rparr>)"
    and "\<forall>k. 0 \<le> jit k \<and> jit k < 1"
  shows "\<forall>d \<in> set (drop (length (slept w)) (slept (snd (retry fn jit 1 w)))). 1 \<le> d \<and> d \<le> 120"
proof -
  have "\<And>w. slept (snd (fn w)) = slept w"
    by (simp add: assms(1))
  moreover have "\<And>k. 0 \<le> jit k \<and> jit k \<le> 1"
    using assms(2) by (simp add: less_imp_le)
  ultimately obtain ds where "slept (snd (retry fn jit 1 w)) = slept w @ ds"
      "\<forall>d \<in> set ds. 1 \<le> d \<and> d \<le> 120"
    using retry_delays [of fn jit 1 w] by blast
  then show ?thesis by simp
qed

text \<open>
  Claim C5, for both decorated calls. Counting the requests of the run from the one in
  which the call starts: when the first \<open>N\<close> attempts raise, whatever the exceptions
  \<open>ex i\<close> are, and attempt \<open>N + 1\<close> returns a value, with \<open>N < 10\<close>, the decorated call
  returns that value after \<open>N + 1\<close> requests and \<open>N\<close> delays; when ten attempts raise,
  it raises \<open>RetryError\<close> with the last exception after exactly ten requests and nine
  delays; and when the random numbers lie in \<open>[0, 1)\<close>, every delay slept during the
  call is at least 1 and at most 120.
\<close>

theorem retry_policy:
  "(N < 10 \<and> (\<forall>i<N. together_create E (length (requests w) + i) m p = Inl (ex i))
      \<and> together_create E (length (requests w) + N) m p = Inr v
     \<longrightarrow> fst (chat_completion_with_backoff E m p w) = Inr v
       \<and> length (requests (snd (chat_completion_with_backoff E m p w))) = length (requests w) + N + 1
       \<and> length (slept (snd (chat_completion_with_backoff E m p w))) = length (slept w) + N)
   \<and> ((\<forall>i<10. together_create E (length (requests w) + i) m p = Inl (ex i))
     \<longrightarrow> fst (chat_completion_with_backoff E m p w) = Inl (RetryError (ex 9))
       \<and> length (requests (snd (chat_completion_with_backoff E m p w))) = length (requests w) + 10
       \<and> length (slept (snd (chat_completion_with_backoff E m p w))) = length (slept w) + 9)
   \<and> ((\<forall>k. 0 \<le> jitter E k \<and> jitter E k < 1)
     \<longrightarrow> (\<forall>d \<in> set (drop (length (slept w)) (slept (snd (chat_completion_with_backoff E m p w)))).
            1 \<le> d \<and> d \<le> 120))
   \<and> (N < 10 \<and> (\<forall>i<N. ollama_attempt E (length (requests w) + i) m p = Inl (ex i))
      \<and> ollama_attempt E (length (requests w) + N) m p = Inr t
     \<longrightarrow> fst (ollama_completion_with_backoff E m p w) = Inr t
       \<and> length (requests (snd (ollama_completion_with_backoff E m p w))) = length (requests w) + N + 1
       \<and> length (slept (snd (ollama_completion_with_backoff E m p w))) = length (slept w) + N)
   \<and> ((\<forall>i<10. ollama_attempt E (length (requests w) + i) m p = Inl (ex i))
     \<longrightarrow> fst (ollama_completion_with_backoff E m p w) = Inl (RetryError (ex 9))
       \<and> length (requests (snd (ollama_completion_with_backoff E m p w))) = length (requests w) + 10
       \<and> length (slept (snd (ollama_completion_with_backoff E m p w))) = length (slept w) + 9)
   \<and> ((\<forall>k. 0 \<le> jitter E k \<and> jitter E k < 1)
     \<longrightarrow> (\<forall>d \<in> set (drop (length (slept w)) (slept (snd (ollama_completion_with_backoff E m p w)))).
            1 \<le> d \<and> d \<le> 120))"
  unfolding chat_completion_with_backoff_def ollama_completion_with_backoff_def
proof (intro conjI impI)
  assume "N < 10 \<and> (\<forall>i<N. together_create E (length (requests w) + i) m p = Inl (ex i))
      \<and> together_create E (length (requests w) + N) m p = Inr v"
  then have h: "N < 10" "\<forall>i<N. together_create E (length (requests w) + i) m p = Inl (ex i)"
      "together_create E (length (requests w) + N) m p = Inr v"
    by simp_all
  note r = backoff_succeeds [of "chat_completion E m p" "\<lambda>k. together_create E k m p" "(m, p)",
      OF chat_completion_form h]
  show "fst (retry (chat_completion E m p) (jitter E) 1 w) = Inr v"
    and "length (requests (snd (retry (chat_completion E m p) (jitter E) 1 w))) = length (requests w) + N + 1"
    and "length (slept (snd (retry (chat_completion E m p) (jitter E) 1 w))) = length (slept w) + N"
    using r [of "jitter E"] by simp_all
next
  assume h: "\<forall>i<10. together_create E (length (requests w) + i) m p = Inl (ex i)"
  note r = backoff_exhausts [of "chat_completion E m p" "\<lambda>k. together_create E k m p" "(m, p)",
      OF chat_completion_form h]
  show "fst (retry (chat_completion E m p) (jitter E) 1 w) = Inl (RetryError (ex 9))"
    and "length (requests (snd (retry (chat_completion E m p) (jitter E) 1 w))) = length (requests w) + 10"
    and "length (slept (snd (retry (chat_completion E m p) (jitter E) 1 w))) = length (slept w) + 9"
    using r [of "jitter E"] by simp_all
next
  assume h: "\<forall>k. 0 \<le> jitter E k \<and> jitter E k < 1"
  show "\<forall>d \<in> set (drop (length (slept w)) (slept (snd (retry (chat_completion E m p) (jitter E) 1 w)))).
            1 \<le> d \<and> d \<le> 120"
    by (rule backoff_delays [of "chat_completion E m p" "\<lambda>k. together_create E k m p" "(m, p)",
          OF chat_completion_form h])
  show "\<forall>d \<in> set (drop (length (slept w)) (slept (snd (retry (ollama_completion E m p) (jitter E) 1 w)))).
            1 \<le> d \<and> d \<le> 120"
    by (rule backoff_delays [of "ollama_completion E m p" "\<lambda>k. ollama_attempt E k m p" "(m, p)",
          OF ollama_completion_form h])
next
  assume "N < 10 \<and> (\<forall>i<N. ollama_attempt E (length (requests w) + i) m p = Inl (ex i))
      \<and> ollama_attempt E (length (requests w) + N) m p = Inr t"
  then have h: "N < 10" "\<forall>i<N. ollama_attempt E (length (requests w) + i) m p = Inl (ex i)"
      "ollama_attempt E (length (requests w) + N) m p = Inr t"
    by simp_all
  note r = backoff_succeeds [of "ollama_completion E m p" "\<lambda>k. ollama_attempt E k m p" "(m, p)",
      OF ollama_completion_form h]
  show "fst (retry (ollama_completion E m p) (jitter E) 1 w) = Inr t"
    and "length (requests (snd (retry (ollama_completion E m p) (jitter E) 1 w))) = length (requests w) + N + 1"
    and "length (slept (snd (retry (ollama_completion E m p) (jitter E) 1 w))) = length (slept w) + N"
    using r [of "jitter E"] by simp_all
next
  assume h: "\<forall>i<10. ollama_attempt E (length (requests w) + i) m p = Inl (ex i)"
  note r = backoff_exhausts [of "ollama_completion E m p" "\<lambda>k. ollama_attempt E k m p" "(m, p)",
      OF ollama_completion_form h]
  show "fst (retry (ollama_completion E m p) (jitter E) 1 w) = Inl (RetryError (ex 9))"
    and "length (requests (snd (retry (ollama_completion E m p) (jitter E) 1 w))) = length (requests w) + 10"
    and "length (slept (snd (retry (ollama_completion E m p) (jitter E) 1 w))) = length (slept w) + 9"
    using r [of "jitter E"] by simp_all
qed

lemma eval_flaky_hosted:
  "(\<forall>i<2. together_create flaky_env (length (requests (world0 {})) + i) ''m'' ''p''
              = Inl ((\<lambda>i. OtherError ''timeout'') i))
   \<and> together_create flaky_env (length (requests (world0 {})) + 2) ''m'' ''p''
       = Inr (Choices [Some ''{}''])"
  by (simp add: flaky_env_def sample_env_def world0_def)

lemma eval_flaky_local:
  "(\<forall>i<2. ollama_attempt flaky_env (length (requests (world0 {})) + i) ''m'' ''p''
              = Inl ((\<lambda>i. OtherError ''timeout'') i))
   \<and> ollama_attempt flaky_env (length (requests (world0 {})) + 2) ''m'' ''p'' = Inr ''{}''"
  by (simp add: flaky_env_def sample_env_def world0_def ollama_attempt_def)

lemma eval_down:
  "(\<forall>i<10. together_create down_env (length (requests (world0 {})) + i) ''m'' ''p''
              = Inl ((\<lambda>i. OtherError ''refused'') i))
   \<and> (\<forall>i<10. ollama_attempt down_env (length (requests (world0 {})) + i) ''m'' ''p''
              = Inl ((\<lambda>i. OtherError ''refused'') i))
   \<and> (\<forall>k. 0 \<le> jitter down_env k \<and> jitter down_env k < 1)"
  by (simp add: down_env_def sample_env_def world0_def ollama_attempt_def)

theorem retry_policy_witness:
  "fst (chat_completion_with_backoff flaky_env ''m'' ''p'' (world0 {})) = Inr (Choices [Some ''{}''])
   \<and> length (requests (snd (chat_completion_with_backoff flaky_env ''m'' ''p'' (world0 {})))) = 3
   \<and> fst (ollama_completion_with_backoff flaky_env ''m'' ''p'' (world0 {})) = Inr ''{}''
   \<and> fst (chat_completion_with_backoff down_env ''m'' ''p'' (world0 {}))
       = Inl (RetryError (OtherError ''refused''))
   \<and> length (requests (snd (chat_completion_with_backoff down_env ''m'' ''p'' (world0 {})))) = 10
   \<and> length (slept (snd (chat_completion_with_backoff down_env ''m'' ''p'' (world0 {})))) = 9
   \<and> list_all (\<lambda>d. 1 \<le> d \<and> d \<le> 120)
        (slept (snd (chat_completion_with_backoff down_env ''m'' ''p'' (world0 {}))))
   \<and> fst (ollama_completion_with_backoff down_env ''m'' ''p'' (world0 {}))
       = Inl (RetryError (OtherError ''refused''))"
proof -
  note flaky = retry_policy [where N = 2 and E = flaky_env and w = "world0 {}" and m = "''m''"
      and p = "''p''" and ex = "\<lambda>i. OtherError ''timeout''" and v = "Choices [Some ''{}'']"
      and t = "''{}''"]
  note down = retry_policy [where N = 0 and E = down_env and w = "world0 {}" and m = "''m''"
      and p = "''p''" and ex = "\<lambda>i. OtherError ''refused''"]
  have "slept (world0 {}) = []" "requests (world0 {}) = []"
    by (simp_all add: world0_def)
  then show ?thesis
    using flaky down eval_flaky_hosted eval_flaky_local eval_down
    by (simp add: list_all_iff)
qed

section \<open>Failures of single documents\<close>

lemma started_append: "started (xs @ ys) = started xs @ started ys"
  by (induction xs rule: started.induct) simp_all

lemma retry_fields:
  fixes fn :: "world \<Rightarrow> (exn + 'a) \<times> world"
  assumes fn: "\<And>w. fn w = (orc (length (requests w)), w\<lparr>requests := requests w @ [r]\<rparr>)"
  shows "log (snd (retry fn jit a w)) = log w
       \<and> files (snd (retry fn jit a w)) = files w
       \<and> dirs (snd (retry fn jit a w)) = dirs w"
proof (induction "max_attempts - a" arbitrary: a w)
  case 0
  then show ?case
    by (subst (1 2 3) retry.simps) (simp add: fn split: sum.splits)
next
  case (Suc n)
  let ?w1 = "w\<lparr>requests := requests w @ [r]\<rparr>"
  let ?w2 = "?w1\<lparr>slept := slept ?w1 @ [wait_random_exponential (jit (length (slept ?w1))) a]\<rparr>"
  show ?case
  proof (cases "orc (length (requests w))")
    case (Inr v)
    then show ?thesis
      by (subst (1 2 3) retry.simps) (simp add: fn)
  next
    case (Inl e)
    have na: "\<not> max_attempts \<le> a"
      using Suc.hyps(2) by simp
    have step: "retry fn jit a w = retry fn jit (Suc a) ?w2"
      by (subst retry.simps) (simp add: fn Inl na)
    have "n = max_attempts - Suc a"
      using Suc.hyps(2) by simp
    from Suc.hyps(1) [OF this, of ?w2] show ?thesis
      unfolding step by simp
  qed
qed

lemma started_parse_response: "started (snd (parse_response lds resp)) = []"
  by (simp add: parse_response_def Let_def split: response.splits list.splits option.splits sum.splits)

lemma started_parse_response_ollama: "started (snd (parse_response_ollama lds raw)) = []"
  by (simp add: parse_response_ollama_def Let_def split: option.splits sum.splits)

lemma extract_metadata_fields:
  "(\<exists>v. fst (extract_metadata E content model w) = Inr v)
   \<and> started (log (snd (extract_metadata E content model w))) = started (log w)
   \<and> files (snd (extract_metadata E content model w)) = files w
   \<and> dirs (snd (extract_metadata E content model w)) = dirs w"
proof -
  obtain res w1 where r: "chat_completion_with_backoff E model (user_message content) w = (res, w1)"
    by (cases "chat_completion_with_backoff E model (user_message content) w")
  have "w1 = snd (retry (chat_completion E model (user_message content)) (jitter E) 1 w)"
    using r by (simp add: chat_completion_with_backoff_def)
  then have w1: "log w1 = log w" "files w1 = files w" "dirs w1 = dirs w"
    using retry_fields [of "chat_completion E model (user_message content)"
        "\<lambda>k. together_create E k model (user_message content)" "(model, user_message content)"
        "jitter E" 1 w]
    by (simp_all add: chat_completion_def)
  show ?thesis
  proof (cases res)
    case (Inl e)
    then show ?thesis
      using r w1 by (simp add: extract_metadata_def say_def started_append)
  next
    case (Inr resp)
    obtain pr out where p: "parse_response (loads E) resp = (pr, out)"
      by (cases "parse_response (loads E) resp")
    then have "started out = []"
      using started_parse_response [of "loads E" resp] by simp
    then show ?thesis
      using r w1 Inr p
      by (cases pr) (simp_all add: extract_metadata_def say_def started_append)
  qed
qed

lemma extract_metadata_ollama_fields:
  "started (log (snd (extract_metadata_ollama E content prompt_path model w))) = started (log w)
   \<and> files (snd (extract_metadata_ollama E content prompt_path model w)) = files w
   \<and> dirs (snd (extract_metadata_ollama E content prompt_path model w)) = dirs w"
proof (cases "read_text E prompt_path")
  case (Inl e)
  then show ?thesis
    by (simp add: extract_metadata_ollama_def)
next
  case (Inr prompt_data)
  let ?p = "combined_prompt prompt_data content"
  obtain res w1 where r: "ollama_completion_with_backoff E model ?p w = (res, w1)"
    by (cases "ollama_completion_with_backoff E model ?p w")
  have "w1 = snd (retry (ollama_completion E model ?p) (jitter E) 1 w)"
    using r by (simp add: ollama_completion_with_backoff_def)
  then have w1: "log w1 = log w" "files w1 = files w" "dirs w1 = dirs w"
    using retry_fields [of "ollama_completion E model ?p"
        "\<lambda>k. ollama_attempt E k model ?p" "(model, ?p)" "jitter E" 1 w]
    by (simp_all add: ollama_completion_def)
  show ?thesis
  proof (cases res)
    case (Inl e)
    then show ?thesis
      using r w1 Inr by (simp add: extract_metadata_ollama_def say_def started_append)
  next
    case raw: (Inr raw)
    obtain pr out where p: "parse_response_ollama (loads E) raw = (pr, out)"
      by (cases "parse_response_ollama (loads E) raw")
    then have "started out = []"
      using started_parse_response_ollama [of "loads E" raw] by simp
    then show ?thesis
      using r w1 Inr raw p
      by (cases pr) (simp_all add: extract_metadata_ollama_def say_def started_append)
  qed
qed

lemma process_research_paper_started:
  "fst (process_research_paper E p out model w) = None
   \<and> started (log (snd (process_research_paper E p out model w))) = started (log w) @ [p]"
proof (cases "loader E p")
  case (Inl e)
  then show ?thesis
    by (simp add: process_research_paper_def paper_steps_def say_def started_append)
next
  case (Inr content)
  let ?W = "say (ExtractedText p) (say (Processing p) w)"
  obtain r w1 where em: "extract_metadata E content model ?W = (r, w1)"
    by (cases "extract_metadata E content model ?W")
  have "started (log w1) = started (log ?W)"
    using extract_metadata_fields [of E content model ?W] em by simp
  then have w1: "started (log w1) = started (log w) @ [p]"
    by (simp add: say_def started_append)
  show ?thesis
  proof (cases r)
    case (Inl e)
    then show ?thesis
      using Inr em w1
      by (simp add: process_research_paper_def paper_steps_def say_def started_append)
  next
    case v: (Inr v)
    then show ?thesis
      using Inr em w1
      by (simp add: process_research_paper_def paper_steps_def dump_json_def say_def
            started_append Let_def)
  qed
qed

lemma process_research_paper_ollama_started:
  "fst (process_research_paper_ollama E p prompt out model w) = None
   \<and> started (log (snd (process_research_paper_ollama E p prompt out model w)))
       = started (log w) @ [p]"
proof (cases "loader E p")
  case (Inl e)
  then show ?thesis
    by (simp add: process_research_paper_ollama_def paper_steps_ollama_def say_def started_append)
next
  case (Inr content)
  let ?W = "say (ExtractedText p) (say (Processing p) w)"
  obtain r w1 where em: "extract_metadata_ollama E content prompt model ?W = (r, w1)"
    by (cases "extract_metadata_ollama E content prompt model ?W")
  have "started (log w1) = started (log ?W)"
    using extract_metadata_ollama_fields [of E content prompt model ?W] em by simp
  then have w1: "started (log w1) = started (log w) @ [p]"
    by (simp add: say_def started_append)
  show ?thesis
  proof (cases r)
    case (Inl e)
    then show ?thesis
      using Inr em w1
      by (simp add: process_research_paper_ollama_def paper_steps_ollama_def say_def
            started_append)
  next
    case v: (Inr v)
    then show ?thesis
      using Inr em w1
      by (simp add: process_research_paper_ollama_def paper_steps_ollama_def dump_json_def
            say_def started_append Let_def)
  qed
qed

lemma process_files_started:
  "fst (process_files E d out model names w) = None
   \<and> started (log (snd (process_files E d out model names w)))
       = started (log w) @ map (path_join d) (filter is_pdf names)"
proof (induction names arbitrary: w)
  case Nil
  show ?case by simp
next
  case (Cons name names)
  show ?case
  proof (cases "is_pdf name")
    case False
    then show ?thesis using Cons.IH [of w] by simp
  next
    case True
    obtain r w1 where pr: "process_research_paper E (path_join d name) out model w = (r, w1)"
      by (cases "process_research_paper E (path_join d name) out model w")
    then have r: "r = None" and w1: "started (log w1) = started (log w) @ [path_join d name]"
      using process_research_paper_started [of E "path_join d name" out model w] by simp_all
    show ?thesis
      using True pr r w1 Cons.IH [of w1] by simp
  qed
qed

lemma process_files_ollama_started:
  "fst (process_files_ollama E prompt d out model names w) = None
   \<and> started (log (snd (process_files_ollama E prompt d out model names w)))
       = started (log w) @ map (path_join d) (filter is_pdf names)"
proof (induction names arbitrary: w)
  case Nil
  show ?case by simp
next
  case (Cons name names)
  show ?case
  proof (cases "is_pdf name")
    case False
    then show ?thesis using Cons.IH [of w] by simp
  next
    case True
    obtain r w1 where
      pr: "process_research_paper_ollama E (path_join d name) prompt out model w = (r, w1)"
      by (cases "process_research_paper_ollama E (path_join d name) prompt out model w")
    then have r: "r = None" and w1: "started (log w1) = started (log w) @ [path_join d name]"
      using process_research_paper_ollama_started [of E "path_join d name" prompt out model w]
      by simp_all
    show ?thesis
      using True pr r w1 Cons.IH [of w1] by simp
  qed
qed

text \<open>
  Claim C7. In every environment, whatever the document loader, the backend and the
  parser do, \<open>process_research_paper\<close> returns without raising; and when the directory
  can be listed, \<open>process_directory\<close> returns without raising after the processing of
  every listed file that passes the filter has started, in the order of the listing.
\<close>

theorem batch_isolates_failures:
  "fst (process_research_paper E p out model w) = None
   \<and> fst (process_research_paper_ollama E p prompt out model w) = None
   \<and> (listdir E d = Inr names
      \<longrightarrow> fst (process_directory E d out model w) = None
        \<and> started (log (snd (process_directory E d out model w)))
            = started (log w) @ map (path_join d) (filter is_pdf names))
   \<and> (listdir E d = Inr names
      \<longrightarrow> fst (process_directory_ollama E prompt d out model w) = None
        \<and> started (log (snd (process_directory_ollama E prompt d out model w)))
            = started (log w) @ map (path_join d) (filter is_pdf names))"
  using process_research_paper_started [of E p out model w]
    process_research_paper_ollama_started [of E p prompt out model w]
    process_files_started [of E d out model names w]
    process_files_ollama_started [of E prompt d out model names w]
  by (simp add: process_directory_def process_directory_ollama_def)

lemma eval_listing: "listdir unreadable_env ''data'' = Inr listing"
  by (simp add: unreadable_env_def sample_env_def)

lemma eval_listing_pdfs:
  "map (path_join ''data'') (filter is_pdf listing) = [''data/a.pdf'', ''data/b.PDF'']"
  by code_simp

theorem batch_isolates_failures_witness:
  "fst (process_directory unreadable_env ''data'' ''out'' ''m'' (world0 {})) = None
   \<and> started (log (snd (process_directory unreadable_env ''data'' ''out'' ''m'' (world0 {}))))
       = [''data/a.pdf'', ''data/b.PDF'']
   \<and> fst (process_directory_ollama unreadable_env ''prompt.txt'' ''data'' ''out'' ''m'' (world0 {}))
       = None
   \<and> started (log (snd (process_directory_ollama unreadable_env ''prompt.txt'' ''data'' ''out''
                          ''m'' (world0 {}))))
       = [''data/a.pdf'', ''data/b.PDF'']"
proof -
  have "started (log (world0 {})) = []"
    by (simp add: world0_def)
  then show ?thesis
    using batch_isolates_failures [of unreadable_env "''data/a.pdf''" "''out''" "''m''" "world0 {}"
        "''prompt.txt''" "''data''" listing]
      eval_listing eval_listing_pdfs
    by simp
qed

section \<open>The empty object\<close>

text \<open>
  The retried request prints nothing and writes no file, so the console lines of one
  document are those of \<open>process_research_paper\<close> and of the parsing step.
\<close>

lemma chat_completion_with_backoff_fields:
  assumes "chat_completion_with_backoff E model message w = (res, w1)"
  shows "log w1 = log w \<and> files w1 = files w"
proof -
  have "w1 = snd (retry (chat_completion E model message) (jitter E) 1 w)"
    using assms by (simp add: chat_completion_with_backoff_def)
  then show ?thesis
    using retry_fields [of "chat_completion E model message"
        "\<lambda>k. together_create E k model message" "(model, message)" "jitter E" 1 w]
    by (simp add: chat_completion_def)
qed

lemma ollama_completion_with_backoff_fields:
  assumes "ollama_completion_with_backoff E model prompt w = (res, w1)"
  shows "log w1 = log w \<and> files w1 = files w"
proof -
  have "w1 = snd (retry (ollama_completion E model prompt) (jitter E) 1 w)"
    using assms by (simp add: ollama_completion_with_backoff_def)
  then show ?thesis
    using retry_fields [of "ollama_completion E model prompt"
        "\<lambda>k. ollama_attempt E k model prompt" "(model, prompt)" "jitter E" 1 w]
    by (simp add: ollama_completion_def)
qed

lemma eval_empty_object: "strip ''{}'' = ''{}'' \<and> clean_fences ''{}'' = ''{}''
    \<and> json_loads ''{}'' = Inr (JObject [])"
  by code_simp

lemma eval_prose: "strip ''oops'' = ''oops'' \<and> clean_fences ''oops'' = ''oops''
    \<and> json_loads ''oops'' = Inl JSONDecodeError \<and> search_braces ''oops'' = None"
  by code_simp

lemma eval_hosted_logs:
  "log (snd (process_research_paper empty_object_env ''a.pdf'' ''out'' ''m'' (world0 {''out''})))
     = [Processing ''a.pdf'', ExtractedText ''a.pdf'', FailedMetadata ''a.pdf'']
   \<and> log (snd (process_research_paper prose_env ''a.pdf'' ''out'' ''m'' (world0 {''out''})))
     = [Processing ''a.pdf'', ExtractedText ''a.pdf'', FailedParse, RawResponse ''oops'',
        FailedMetadata ''a.pdf'']"
  by (simp add: process_research_paper_def paper_steps_def extract_metadata_def
        chat_completion_with_backoff_def retry.simps chat_completion_def
        empty_object_env_def prose_env_def sample_env_def parse_response_def
        eval_empty_object eval_prose say_def world0_def)

lemma eval_local_logs:
  "log (snd (process_research_paper_ollama empty_object_env ''a.pdf'' ''prompt.txt'' ''out'' ''m''
               (world0 {''out''})))
     = [Processing ''a.pdf'', ExtractedText ''a.pdf'', FailedMetadata ''a.pdf'']
   \<and> log (snd (process_research_paper_ollama prose_env ''a.pdf'' ''prompt.txt'' ''out'' ''m''
               (world0 {''out''})))
     = [Processing ''a.pdf'', ExtractedText ''a.pdf'', FailedParse, RawResponse ''oops'',
        FailedMetadata ''a.pdf'']"
  by (simp add: process_research_paper_ollama_def paper_steps_ollama_def
        extract_metadata_ollama_def ollama_completion_with_backoff_def retry.simps
        ollama_completion_def ollama_attempt_def empty_object_env_def prose_env_def
        sample_env_def parse_response_ollama_def eval_empty_object eval_prose say_def
        world0_def)

lemma eval_backoff_hosted:
  "fst (chat_completion_with_backoff empty_object_env ''m'' (user_message ''paper text'')
          (say (ExtractedText ''a.pdf'') (say (Processing ''a.pdf'') (world0 {''out''}))))
     = Inr (Choices [Some ''{}''])
   \<and> fst (chat_completion_with_backoff prose_env ''m'' (user_message ''paper text'')
          (say (ExtractedText ''a.pdf'') (say (Processing ''a.pdf'') (world0 {''out''}))))
     = Inr (Choices [Some ''oops''])"
  by (simp add: chat_completion_with_backoff_def retry.simps chat_completion_def
        empty_object_env_def prose_env_def sample_env_def)

lemma eval_backoff_local:
  "fst (ollama_completion_with_backoff empty_object_env ''m''
          (combined_prompt ''prompt'' ''paper text'')
          (say (ExtractedText ''a.pdf'') (say (Processing ''a.pdf'') (world0 {''out''}))))
     = Inr ''{}''
   \<and> fst (ollama_completion_with_backoff prose_env ''m''
          (combined_prompt ''prompt'' ''paper text'')
          (say (ExtractedText ''a.pdf'') (say (Processing ''a.pdf'') (world0 {''out''}))))
     = Inr ''oops''"
  by (simp add: ollama_completion_with_backoff_def retry.simps ollama_completion_def
        ollama_attempt_def empty_object_env_def prose_env_def sample_env_def)

text \<open>
  Claim C9 as stated fails. It says that a response which parses to the empty object cannot
  be told apart from a response that does not parse. Return value and files are the same,
  but the console is not: for the answer \<open>oops\<close> either variant prints "Failed to parse
  JSON" and "Raw response: oops" before "Failed to extract metadata", for the answer \<open>{}\<close>
  it prints "Failed to extract metadata" only.
\<close>

theorem empty_object_console_counterexample:
  "log (snd (process_research_paper empty_object_env ''a.pdf'' ''out'' ''m'' (world0 {''out''})))
     = [Processing ''a.pdf'', ExtractedText ''a.pdf'', FailedMetadata ''a.pdf'']
   \<and> log (snd (process_research_paper prose_env ''a.pdf'' ''out'' ''m'' (world0 {''out''})))
     = [Processing ''a.pdf'', ExtractedText ''a.pdf'', FailedParse, RawResponse ''oops'',
        FailedMetadata ''a.pdf'']
   \<and> log (snd (process_research_paper empty_object_env ''a.pdf'' ''out'' ''m'' (world0 {''out''})))
     \<noteq> log (snd (process_research_paper prose_env ''a.pdf'' ''out'' ''m'' (world0 {''out''})))
   \<and> log (snd (process_research_paper_ollama empty_object_env ''a.pdf'' ''prompt.txt'' ''out''
                  ''m'' (world0 {''out''})))
     \<noteq> log (snd (process_research_paper_ollama prose_env ''a.pdf'' ''prompt.txt'' ''out'' ''m''
                  (world0 {''out''})))"
  by (simp add: eval_hosted_logs eval_local_logs)

text \<open>
  Claim C9, amended. Let the document be readable (and, in the local variant, the prompt
  file too) and let the retried request return a non-blank text \<open>raw\<close>. If the text
  parses to the empty object, \<open>process_research_paper\<close> returns early without a result,
  the files are those before the call, and the console gains the lines "Processing",
  "Extracted text" and "Failed to extract metadata". If the text does not parse, the
  return value and the files are the same, and the console gains in addition, before the
  last line, "Failed to parse JSON" and "Raw response" (and, in the local variant, "Failed
  to extract valid JSON" when the text between the outermost braces does not parse
  either).
\<close>

theorem empty_object_skips_document:
  "(loader E p = Inr content
      \<and> chat_completion_with_backoff E model (user_message content)
            (say (ExtractedText p) (say (Processing p) w))
          = (Inr (Choices (Some raw # cs)), w1)
      \<and> strip raw \<noteq> []
     \<longrightarrow> files w1 = files w
       \<and> (loads E (strip raw) = Inr (JObject [])
          \<longrightarrow> process_research_paper E p out model w
              = (None, w1\<lparr>log := log w @ [Processing p, ExtractedText p, FailedMetadata p]\<rparr>))
       \<and> (loads E (strip raw) = Inl JSONDecodeError
          \<longrightarrow> process_research_paper E p out model w
              = (None, w1\<lparr>log := log w @ [Processing p, ExtractedText p, FailedParse,
                                           RawResponse (strip raw), FailedMetadata p]\<rparr>)))
   \<and> (loader E p = Inr content
      \<and> read_text E prompt = Inr prompt_data
      \<and> ollama_completion_with_backoff E model (combined_prompt prompt_data content)
            (say (ExtractedText p) (say (Processing p) w))
          = (Inr raw, w2)
      \<and> strip raw \<noteq> []
     \<longrightarrow> files w2 = files w
       \<and> (loads E (clean_fences (strip raw)) = Inr (JObject [])
          \<longrightarrow> process_research_paper_ollama E p prompt out model w
              = (None, w2\<lparr>log := log w @ [Processing p, ExtractedText p, FailedMetadata p]\<rparr>))
       \<and> (loads E (clean_fences (strip raw)) = Inl JSONDecodeError
            \<and> search_braces (clean_fences (strip raw)) = None
          \<longrightarrow> process_research_paper_ollama E p prompt out model w
              = (None, w2\<lparr>log := log w @ [Processing p, ExtractedText p, FailedParse,
                                           RawResponse (clean_fences (strip raw)),
                                           FailedMetadata p]\<rparr>))
       \<and> (loads E (clean_fences (strip raw)) = Inl JSONDecodeError
            \<and> search_braces (clean_fences (strip raw)) = Some m
            \<and> loads E m = Inl JSONDecodeError
          \<longrightarrow> process_research_paper_ollama E p prompt out model w
              = (None, w2\<lparr>log := log w @ [Processing p, ExtractedText p, FailedParse,
                                           RawResponse (clean_fences (strip raw)),
                                           FailedExtractJSON, FailedMetadata p]\<rparr>)))"
proof (intro conjI impI)
  let ?W = "say (ExtractedText p) (say (Processing p) w)"
  assume h: "loader E p = Inr content
      \<and> chat_completion_with_backoff E model (user_message content) ?W
          = (Inr (Choices (Some raw # cs)), w1)
      \<and> strip raw \<noteq> []"
  then have f: "log w1 = log ?W" "files w1 = files ?W"
    using chat_completion_with_backoff_fields [of E model "user_message content" ?W
        "Inr (Choices (Some raw # cs))" w1]
    by simp_all
  show "files w1 = files w"
    using f(2) by (simp add: say_def)
  show "process_research_paper E p out model w
      = (None, w1\<lparr>log := log w @ [Processing p, ExtractedText p, FailedMetadata p]\<rparr>)"
    if "loads E (strip raw) = Inr (JObject [])"
    using h that f(1)
    by (simp add: process_research_paper_def paper_steps_def extract_metadata_def
          parse_response_def say_def)
  show "process_research_paper E p out model w
      = (None, w1\<lparr>log := log w @ [Processing p, ExtractedText p, FailedParse,
                                   RawResponse (strip raw), FailedMetadata p]\<rparr>)"
    if "loads E (strip raw) = Inl JSONDecodeError"
    using h that f(1)
    by (simp add: process_research_paper_def paper_steps_def extract_metadata_def
          parse_response_def say_def)
next
  let ?W = "say (ExtractedText p) (say (Processing p) w)"
  let ?c = "clean_fences (strip raw)"
  assume h: "loader E p = Inr content
      \<and> read_text E prompt = Inr prompt_data
      \<and> ollama_completion_with_backoff E model (combined_prompt prompt_data content) ?W
          = (Inr raw, w2)
      \<and> strip raw \<noteq> []"
  then have f: "log w2 = log ?W" "files w2 = files ?W"
    using ollama_completion_with_backoff_fields
        [of E model "combined_prompt prompt_data content" ?W "Inr raw" w2]
    by simp_all
  show "files w2 = files w"
    using f(2) by (simp add: say_def)
  show "process_research_paper_ollama E p prompt out model w
      = (None, w2\<lparr>log := log w @ [Processing p, ExtractedText p, FailedMetadata p]\<rparr>)"
    if "loads E ?c = Inr (JObject [])"
    using h that f(1)
    by (simp add: process_research_paper_ollama_def paper_steps_ollama_def
          extract_metadata_ollama_def parse_response_ollama_def say_def)
  show "process_research_paper_ollama E p prompt out model w
      = (None, w2\<lparr>log := log w @ [Processing p, ExtractedText p, FailedParse,
                                   RawResponse ?c, FailedMetadata p]\<rparr>)"
    if "loads E ?c = Inl JSONDecodeError \<and> search_braces ?c = None"
    using h that f(1)
    by (simp add: process_research_paper_ollama_def paper_steps_ollama_def
          extract_metadata_ollama_def parse_response_ollama_def say_def)
  show "process_research_paper_ollama E p prompt out model w
      = (None, w2\<lparr>log := log w @ [Processing p, ExtractedText p, FailedParse,
                                   RawResponse ?c, FailedExtractJSON, FailedMetadata p]\<rparr>)"
    if "loads E ?c = Inl JSONDecodeError \<and> search_braces ?c = Some m
        \<and> loads E m = Inl JSONDecodeError"
    using h that f(1)
    by (simp add: process_research_paper_ollama_def paper_steps_ollama_def
          extract_metadata_ollama_def parse_response_ollama_def say_def)
qed

theorem empty_object_skips_document_witness:
  "process_research_paper empty_object_env ''a.pdf'' ''out'' ''m'' (world0 {''out''})
     = (None,
        (snd (chat_completion_with_backoff empty_object_env ''m'' (user_message ''paper text'')
               (say (ExtractedText ''a.pdf'') (say (Processing ''a.pdf'') (world0 {''out''})))))
          \<lparr>log := [Processing ''a.pdf'', ExtractedText ''a.pdf'', FailedMetadata ''a.pdf'']\<rparr>)
   \<and> process_research_paper prose_env ''a.pdf'' ''out'' ''m'' (world0 {''out''})
     = (None,
        (snd (chat_completion_with_backoff prose_env ''m'' (user_message ''paper text'')
               (say (ExtractedText ''a.pdf'') (say (Processing ''a.pdf'') (world0 {''out''})))))
          \<lparr>log := [Processing ''a.pdf'', ExtractedText ''a.pdf'', FailedParse,
                   RawResponse ''oops'', FailedMetadata ''a.pdf'']\<rparr>)
   \<and> files (snd (process_research_paper empty_object_env ''a.pdf'' ''out'' ''m''
                    (world0 {''out''}))) = Map.empty
   \<and> files (snd (process_research_paper prose_env ''a.pdf'' ''out'' ''m''
                    (world0 {''out''}))) = Map.empty
   \<and> process_research_paper_ollama empty_object_env ''a.pdf'' ''prompt.txt'' ''out'' ''m''
        (world0 {''out''})
     = (None,
        (snd (ollama_completion_with_backoff empty_object_env ''m''
               (combined_prompt ''prompt'' ''paper text'')
               (say (ExtractedText ''a.pdf'') (say (Processing ''a.pdf'') (world0 {''out''})))))
          \<lparr>log := [Processing ''a.pdf'', ExtractedText ''a.pdf'', FailedMetadata ''a.pdf'']\<rparr>)
   \<and> process_research_paper_ollama prose_env ''a.pdf'' ''prompt.txt'' ''out'' ''m''
        (world0 {''out''})
     = (None,
        (snd (ollama_completion_with_backoff prose_env ''m''
               (combined_prompt ''prompt'' ''paper text'')
               (say (ExtractedText ''a.pdf'') (say (Processing ''a.pdf'') (world0 {''out''})))))
          \<lparr>log := [Processing ''a.pdf'', ExtractedText ''a.pdf'', FailedParse,
                   RawResponse ''oops'', FailedMetadata ''a.pdf'']\<rparr>)
   \<and> files (snd (process_research_paper_ollama empty_object_env ''a.pdf'' ''prompt.txt''
                    ''out'' ''m'' (world0 {''out''}))) = Map.empty
   \<and> files (snd (process_research_paper_ollama prose_env ''a.pdf'' ''prompt.txt''
                    ''out'' ''m'' (world0 {''out''}))) = Map.empty"
proof -
  let ?W = "say (ExtractedText ''a.pdf'') (say (Processing ''a.pdf'') (world0 {''out''}))"
  let ?h1 = "snd (chat_completion_with_backoff empty_object_env ''m''
                    (user_message ''paper text'') ?W)"
  let ?h2 = "snd (chat_completion_with_backoff prose_env ''m''
                    (user_message ''paper text'') ?W)"
  let ?l1 = "snd (ollama_completion_with_backoff empty_object_env ''m''
                    (combined_prompt ''prompt'' ''paper text'') ?W)"
  let ?l2 = "snd (ollama_completion_with_backoff prose_env ''m''
                    (combined_prompt ''prompt'' ''paper text'') ?W)"
  have env1: "loader empty_object_env ''a.pdf'' = Inr ''paper text''"
      "read_text empty_object_env ''prompt.txt'' = Inr ''prompt''"
      "loads empty_object_env = json_loads"
    by (simp_all add: empty_object_env_def sample_env_def)
  have env2: "loader prose_env ''a.pdf'' = Inr ''paper text''"
      "read_text prose_env ''prompt.txt'' = Inr ''prompt''"
      "loads prose_env = json_loads"
    by (simp_all add: prose_env_def sample_env_def)
  have h1: "chat_completion_with_backoff empty_object_env ''m'' (user_message ''paper text'') ?W
              = (Inr (Choices (Some ''{}'' # [])), ?h1)"
    using eval_backoff_hosted by (simp add: prod_eq_iff)
  have h2: "chat_completion_with_backoff prose_env ''m'' (user_message ''paper text'') ?W
              = (Inr (Choices (Some ''oops'' # [])), ?h2)"
    using eval_backoff_hosted by (simp add: prod_eq_iff)
  have l1: "ollama_completion_with_backoff empty_object_env ''m''
              (combined_prompt ''prompt'' ''paper text'') ?W = (Inr ''{}'', ?l1)"
    using eval_backoff_local by (simp add: prod_eq_iff)
  have l2: "ollama_completion_with_backoff prose_env ''m''
              (combined_prompt ''prompt'' ''paper text'') ?W = (Inr ''oops'', ?l2)"
    using eval_backoff_local by (simp add: prod_eq_iff)
  have e1: "strip ''{}'' \<noteq> []" "json_loads (strip ''{}'') = Inr (JObject [])"
      "json_loads (clean_fences (strip ''{}'')) = Inr (JObject [])"
    using eval_empty_object by simp_all
  have e2: "strip ''oops'' \<noteq> []" "strip ''oops'' = ''oops''"
      "clean_fences (strip ''oops'') = ''oops''"
      "json_loads ''oops'' = Inl JSONDecodeError" "search_braces ''oops'' = None"
    using eval_prose by simp_all
  note empty = empty_object_skips_document
      [where E = empty_object_env and p = "''a.pdf''" and content = "''paper text''"
         and model = "''m''" and raw = "''{}''" and cs = "[]" and ?w1.0 = ?h1
         and w = "world0 {''out''}" and out = "''out''" and prompt = "''prompt.txt''"
         and prompt_data = "''prompt''" and ?w2.0 = ?l1 and m = "[]"]
  note prose = empty_object_skips_document
      [where E = prose_env and p = "''a.pdf''" and content = "''paper text''"
         and model = "''m''" and raw = "''oops''" and cs = "[]" and ?w1.0 = ?h2
         and w = "world0 {''out''}" and out = "''out''" and prompt = "''prompt.txt''"
         and prompt_data = "''prompt''" and ?w2.0 = ?l2 and m = "[]"]
  have a: "files ?h1 = files (world0 {''out''})"
    and b: "process_research_paper empty_object_env ''a.pdf'' ''out'' ''m'' (world0 {''out''})
        = (None, ?h1\<lparr>log := log (world0 {''out''})
             @ [Processing ''a.pdf'', ExtractedText ''a.pdf'', FailedMetadata ''a.pdf'']\<rparr>)"
    and c: "files ?l1 = files (world0 {''out''})"
    and d: "process_research_paper_ollama empty_object_env ''a.pdf'' ''prompt.txt'' ''out'' ''m''
          (world0 {''out''})
        = (None, ?l1\<lparr>log := log (world0 {''out''})
             @ [Processing ''a.pdf'', ExtractedText ''a.pdf'', FailedMetadata ''a.pdf'']\<rparr>)"
    using empty env1 h1 l1 e1 by simp_all
  have a': "files ?h2 = files (world0 {''out''})"
    and b': "process_research_paper prose_env ''a.pdf'' ''out'' ''m'' (world0 {''out''})
        = (None, ?h2\<lparr>log := log (world0 {''out''})
             @ [Processing ''a.pdf'', ExtractedText ''a.pdf'', FailedParse,
                RawResponse ''oops'', FailedMetadata ''a.pdf'']\<rparr>)"
    and c': "files ?l2 = files (world0 {''out''})"
    and d': "process_research_paper_ollama prose_env ''a.pdf'' ''prompt.txt'' ''out'' ''m''
          (world0 {''out''})
        = (None, ?l2\<lparr>log := log (world0 {''out''})
             @ [Processing ''a.pdf'', ExtractedText ''a.pdf'', FailedParse,
                RawResponse ''oops'', FailedMetadata ''a.pdf'']\<rparr>)"
    using prose env2 h2 l2 e2 by simp_all
  have w0: "log (world0 {''out''}) = []" "files (world0 {''out''}) = Map.empty"
    by (simp_all add: world0_def)
  show ?thesis
    unfolding b b' d d' using a a' c c' w0 by simp
qed

section \<open>The output folder\<close>

lemma eval_unwrapped_A_truthy:
  "parse_response_ollama json_loads unwrapped_A
     = (Inr (JObject [(''PaperTitle'', JString ''X'')]), [])
   \<and> parse_response json_loads (Choices [Some unwrapped_A])
     = (Inr (JObject [(''PaperTitle'', JString ''X'')]), [])"
  by code_simp

lemma eval_output_names:
  "map is_pdf listing = [True, False, True]
   \<and> path_join ''data'' ''a.pdf'' = ''data/a.pdf''
   \<and> path_join ''data'' ''b.PDF'' = ''data/b.PDF''
   \<and> path_join ''extracted_metadata'' (path_stem ''data/1706.03762v7.pdf'' @ ''.json'')
       = ''extracted_metadata/1706.03762v7.json''
   \<and> path_join ''extracted_metadata'' (path_stem ''data/a.pdf'' @ ''.json'')
       = ''extracted_metadata/a.json''
   \<and> path_join ''extracted_metadata'' (path_stem ''data/b.PDF'' @ ''.json'')
       = ''extracted_metadata/b.json''"
  by code_simp

lemma paper_without_folder:
  assumes "''extracted_metadata'' \<notin> dirs w"
  shows "process_research_paper_ollama scenario_A_env p ''prompt.txt'' ''extracted_metadata'' m w
     = (None,
        w\<lparr>log := log w @ [Processing p, ExtractedText p, ExtractedMetadata m p,
                            ErrorProcessing p FileNotFoundError],
          requests := requests w @ [(m, combined_prompt ''prompt'' ''paper text'')]\<rparr>)"
  using assms
  by (simp add: process_research_paper_ollama_def paper_steps_ollama_def
        extract_metadata_ollama_def ollama_completion_with_backoff_def retry.simps
        ollama_completion_def ollama_attempt_def scenario_A_env_def sample_env_def
        eval_unwrapped_A_truthy dump_json_def say_def)

lemma paper_with_folder:
  assumes "''extracted_metadata'' \<in> dirs w"
  shows "process_research_paper scenario_A_env p ''extracted_metadata'' m w
     = (None,
        w\<lparr>files := (files w)(path_join ''extracted_metadata'' (path_stem p @ ''.json'')
                       \<mapsto> JObject [(''PaperTitle'', JString ''X'')]),
          log := log w @ [Processing p, ExtractedText p, ExtractedMetadata m p,
                            Saved (path_join ''extracted_metadata'' (path_stem p @ ''.json''))],
          requests := requests w @ [(m, user_message ''paper text'')]\<rparr>)"
  using assms
  by (simp add: process_research_paper_def paper_steps_def
        extract_metadata_def chat_completion_with_backoff_def retry.simps
        chat_completion_def scenario_A_env_def sample_env_def
        eval_unwrapped_A_truthy dump_json_def say_def Let_def)

text \<open>
  Claim C8 says that the output directory is created if absent. The hosted script does
  so in its main block; the local script never does. Run in a world where only the
  input directory exists, with readable documents and a backend that answers with the
  object of scenario A, the local script prints "Error processing" with
  \<open>FileNotFoundError\<close> for every document, writes no file and leaves the folder
  absent, while the hosted script creates the folder and writes one artifact per
  document, named by the stem of the input and the suffix \<open>.json\<close>; the file
  \<open>notes.txt\<close> is ignored by both.
\<close>

theorem output_folder_missing_in_local_script:
  "fst (main_ollama scenario_A_env (world0 {''data''})) = None
   \<and> log (snd (main_ollama scenario_A_env (world0 {''data''})))
       = [Processing ''data/1706.03762v7.pdf'', ExtractedText ''data/1706.03762v7.pdf'',
          ExtractedMetadata MODEL_ID_ollama ''data/1706.03762v7.pdf'',
          ErrorProcessing ''data/1706.03762v7.pdf'' FileNotFoundError,
          Processing ''data/a.pdf'', ExtractedText ''data/a.pdf'',
          ExtractedMetadata MODEL_ID_ollama ''data/a.pdf'',
          ErrorProcessing ''data/a.pdf'' FileNotFoundError,
          Processing ''data/b.PDF'', ExtractedText ''data/b.PDF'',
          ExtractedMetadata MODEL_ID_ollama ''data/b.PDF'',
          ErrorProcessing ''data/b.PDF'' FileNotFoundError]
   \<and> files (snd (main_ollama scenario_A_env (world0 {''data''}))) = Map.empty
   \<and> dirs (snd (main_ollama scenario_A_env (world0 {''data''}))) = {''data''}
   \<and> fst (main scenario_A_env (world0 {''data''})) = None
   \<and> dirs (snd (main scenario_A_env (world0 {''data''}))) = {''extracted_metadata'', ''data''}
   \<and> files (snd (main scenario_A_env (world0 {''data''}))) ''extracted_metadata/a.json''
       = Some (JObject [(''PaperTitle'', JString ''X'')])
   \<and> files (snd (main scenario_A_env (world0 {''data''}))) ''extracted_metadata/b.json''
       = Some (JObject [(''PaperTitle'', JString ''X'')])"
proof -
  have l: "listdir scenario_A_env ''data'' = Inr [''a.pdf'', ''notes.txt'', ''b.PDF'']"
    by (simp add: scenario_A_env_def sample_env_def listing_def)
  have k: "Together (getenv_key scenario_A_env) = None"
    by (simp add: scenario_A_env_def sample_env_def Together_def)
  have f: "is_pdf ''a.pdf''" "\<not> is_pdf ''notes.txt''" "is_pdf ''b.PDF''"
    using eval_output_names by (simp_all add: listing_def)
  have local: "fst (main_ollama scenario_A_env (world0 {''data''})) = None
      \<and> log (snd (main_ollama scenario_A_env (world0 {''data''})))
       = [Processing ''data/1706.03762v7.pdf'', ExtractedText ''data/1706.03762v7.pdf'',
          ExtractedMetadata MODEL_ID_ollama ''data/1706.03762v7.pdf'',
          ErrorProcessing ''data/1706.03762v7.pdf'' FileNotFoundError,
          Processing ''data/a.pdf'', ExtractedText ''data/a.pdf'',
          ExtractedMetadata MODEL_ID_ollama ''data/a.pdf'',
          ErrorProcessing ''data/a.pdf'' FileNotFoundError,
          Processing ''data/b.PDF'', ExtractedText ''data/b.PDF'',
          ExtractedMetadata MODEL_ID_ollama ''data/b.PDF'',
          ErrorProcessing ''data/b.PDF'' FileNotFoundError]
      \<and> files (snd (main_ollama scenario_A_env (world0 {''data''}))) = Map.empty
      \<and> dirs (snd (main_ollama scenario_A_env (world0 {''data''}))) = {''data''}"
    by (simp add: main_ollama_def process_directory_ollama_def l f paper_without_folder
          eval_output_names world0_def)
  have hosted: "fst (main scenario_A_env (world0 {''data''})) = None
      \<and> dirs (snd (main scenario_A_env (world0 {''data''}))) = {''extracted_metadata'', ''data''}
      \<and> files (snd (main scenario_A_env (world0 {''data''}))) ''extracted_metadata/a.json''
          = Some (JObject [(''PaperTitle'', JString ''X'')])
      \<and> files (snd (main scenario_A_env (world0 {''data''}))) ''extracted_metadata/b.json''
          = Some (JObject [(''PaperTitle'', JString ''X'')])"
    by (simp add: main_def k makedirs_def process_directory_def l f paper_with_folder
          eval_output_names world0_def)
  from local hosted show ?thesis by simp
qed

end
